theory Spec2Isabelle
  imports Complex_Main "HOL-Library.Sublist"
begin

section \<open>JavaScript values\<close>

text \<open>
  The server receives its tool arguments as untyped JavaScript values and inspects them
  with \<^verbatim>\<open>typeof\<close>, truthiness and \<^verbatim>\<open>Array.isArray\<close>. A number is an IEEE double:
  not-a-number, an infinity (the flag is the sign, \<open>True\<close> for negative), or a finite value,
  which is a rational; both zeros are \<open>Fin 0\<close>.
\<close>

datatype number = NaN | Infinity bool | Fin rat

datatype jsval =
    JUndefined
  | JNull
  | JBoolean bool
  | JNumber number
  | JString string
  | JArray "jsval list"
  | JObject "(string \<times> jsval) list"

fun truthy_number :: "number \<Rightarrow> bool" where
  "truthy_number NaN = False"
| "truthy_number (Infinity _) = True"
| "truthy_number (Fin q) = (q \<noteq> 0)"

fun truthy :: "jsval \<Rightarrow> bool" where
  "truthy JUndefined = False"
| "truthy JNull = False"
| "truthy (JBoolean b) = b"
| "truthy (JNumber n) = truthy_number n"
| "truthy (JString s) = (s \<noteq> [])"
| "truthy (JArray _) = True"
| "truthy (JObject _) = True"

fun typeof :: "jsval \<Rightarrow> string" where
  "typeof JUndefined = ''undefined''"
| "typeof JNull = ''object''"
| "typeof (JBoolean _) = ''boolean''"
| "typeof (JNumber _) = ''number''"
| "typeof (JString _) = ''string''"
| "typeof (JArray _) = ''object''"
| "typeof (JObject _) = ''object''"

fun isArray :: "jsval \<Rightarrow> bool" where
  "isArray (JArray _) = True"
| "isArray _ = False"

text \<open>
  \<^verbatim>\<open>args.key\<close> for the keys the server reads (\<^verbatim>\<open>host\<close>, \<^verbatim>\<open>user\<close>, \<^verbatim>\<open>password\<close>,
  \<^verbatim>\<open>database\<close>, \<^verbatim>\<open>tableName\<close>, \<^verbatim>\<open>query\<close>, \<^verbatim>\<open>port\<close>, \<^verbatim>\<open>params\<close>): an object
  yields the stored value or \<^verbatim>\<open>undefined\<close>; a primitive or an array has none of these
  properties. On \<^verbatim>\<open>null\<close> and \<^verbatim>\<open>undefined\<close> a read would raise, but every read in
  the source stands behind \<^verbatim>\<open>args &&\<close>, which short-circuits there.
\<close>

fun get :: "jsval \<Rightarrow> string \<Rightarrow> jsval" where
  "get (JObject props) key = (case map_of props key of Some v \<Rightarrow> v | None \<Rightarrow> JUndefined)"
| "get _ key = JUndefined"

text \<open>A thrown value is an \<^verbatim>\<open>Error\<close> instance carrying its message, or any other value.\<close>

datatype thrown = Error string | Thrown jsval

text \<open>\<^verbatim>\<open>error instanceof Error ? error.message : dflt\<close>\<close>

fun message_or :: "thrown \<Rightarrow> string \<Rightarrow> string" where
  "message_or (Error m) dflt = m"
| "message_or (Thrown _) dflt = dflt"

text \<open>Template literals print an array length in decimal.\<close>

definition digit :: "nat \<Rightarrow> char" where
  "digit n = ''0123456789'' ! n"

fun string_of_nat :: "nat \<Rightarrow> string" where
  "string_of_nat n = (if n < 10 then [digit n] else string_of_nat (n div 10) @ [digit (n mod 10)])"

declare string_of_nat.simps [simp del]

section \<open>The database driver\<close>

text \<open>
  The \<^verbatim>\<open>mysql2/promise\<close> driver is not part of the repository; it is a parameter of the
  model. Opening a connection and executing a statement each resolve or reject, and what
  they do may depend on everything they are given: these are the two failures the
  specification names (connection failure and statement failure, section 7).
  \<^verbatim>\<open>connection.end()\<close> is assumed to resolve: the promise the driver returns for it
  has no rejecting path, so a close is recorded as a call that completes. The statement's
  rows are an array of row objects or, for a statement that selects nothing, a result
  header without a \<^verbatim>\<open>length\<close>; rows, header and field metadata are left abstract, since
  the source passes them through without looking inside.
\<close>

record ConnectionOptions =
  opt_host :: string
  opt_user :: string
  opt_password :: string
  opt_database :: string
  opt_port :: number

datatype ('row, 'hdr) rows = RowArray "'row list" | ResultHeader 'hdr

record ('c, 'row, 'hdr, 'f) driver =
  mysql_createConnection :: "ConnectionOptions \<Rightarrow> thrown + 'c"
  connection_execute :: "'c \<Rightarrow> string \<Rightarrow> jsval list option \<Rightarrow> thrown + (('row, 'hdr) rows \<times> 'f)"

text \<open>Every call that reaches the driver is recorded, in order.\<close>

datatype 'c event =
    Connect ConnectionOptions
  | Execute 'c string "jsval list option"
  | End 'c

section \<open>Asynchronous functions\<close>

text \<open>
  An \<^verbatim>\<open>async\<close> function is a computation over the log of driver calls and the function's
  local variable \<^verbatim>\<open>connection\<close>; it resolves with a value (\<open>Inr\<close>) or rejects with a
  thrown value (\<open>Inl\<close>).
\<close>

record 'c state =
  calls :: "'c event list"
  connection_var :: "'c option"

type_synonym ('c, 'a) async = "'c state \<Rightarrow> (thrown + 'a) \<times> 'c state"

definition resolve :: "'a \<Rightarrow> ('c, 'a) async" where
  "resolve v = (\<lambda>s. (Inr v, s))"

definition throw :: "thrown \<Rightarrow> ('c, 'a) async" where
  "throw e = (\<lambda>s. (Inl e, s))"

definition await :: "('c, 'a) async \<Rightarrow> ('a \<Rightarrow> ('c, 'b) async) \<Rightarrow> ('c, 'b) async" where
  "await m k = (\<lambda>s. case m s of (Inl e, s') \<Rightarrow> (Inl e, s') | (Inr v, s') \<Rightarrow> k v s')"

definition try_catch :: "('c, 'a) async \<Rightarrow> (thrown \<Rightarrow> ('c, 'a) async) \<Rightarrow> ('c, 'a) async" where
  "try_catch body handler =
     (\<lambda>s. case body s of (Inl e, s') \<Rightarrow> handler e s' | (Inr v, s') \<Rightarrow> (Inr v, s'))"

text \<open>
  \<^verbatim>\<open>finally\<close> runs after the protected block however that completed; the block's
  completion stands unless the finaliser itself throws.
\<close>

definition try_finally :: "('c, 'a) async \<Rightarrow> ('c, unit) async \<Rightarrow> ('c, 'a) async" where
  "try_finally body finaliser =
     (\<lambda>s. case body s of (r, s') \<Rightarrow>
        (case finaliser s' of (Inl e, s'') \<Rightarrow> (Inl e, s'') | (Inr _, s'') \<Rightarrow> (r, s'')))"

definition record_call :: "'c event \<Rightarrow> 'c state \<Rightarrow> 'c state" where
  "record_call ev s = s\<lparr>calls := calls s @ [ev]\<rparr>"

definition driver_connect ::
  "('c, 'row, 'hdr, 'f) driver \<Rightarrow> ConnectionOptions \<Rightarrow> ('c, 'c) async" where
  "driver_connect drv opts = (\<lambda>s. (mysql_createConnection drv opts, record_call (Connect opts) s))"

definition driver_execute ::
  "('c, 'row, 'hdr, 'f) driver \<Rightarrow> 'c \<Rightarrow> string \<Rightarrow> jsval list option
     \<Rightarrow> ('c, ('row, 'hdr) rows \<times> 'f) async" where
  "driver_execute drv c sql params =
     (\<lambda>s. (connection_execute drv c sql params, record_call (Execute c sql params) s))"

definition driver_end :: "'c \<Rightarrow> ('c, unit) async" where
  "driver_end c = (\<lambda>s. (Inr (), record_call (End c) s))"

definition assign_connection :: "'c option \<Rightarrow> ('c, unit) async" where
  "assign_connection v = (\<lambda>s. (Inr (), s\<lparr>connection_var := v\<rparr>))"

definition read_connection :: "('c, 'c option) async" where
  "read_connection = (\<lambda>s. (Inr (connection_var s), s))"

text \<open>A call from outside starts with an empty log; its outcome and the log are observed.\<close>

definition run :: "('c, 'a) async \<Rightarrow> (thrown + 'a) \<times> 'c event list" where
  "run m = (case m \<lparr>calls = [], connection_var = None\<rparr> of (r, s) \<Rightarrow> (r, calls s))"

section \<open>Database access functions\<close>

text \<open>
  The fields of \<^verbatim>\<open>DatabaseConfig\<close> and of the driver's options carry a prefix here, so
  that \<open>host\<close>, \<open>user\<close>, \<open>password\<close>, \<open>database\<close> and \<open>port\<close> stay free for the
  parameters of the functions.
\<close>

record DatabaseConfig =
  cfg_host :: string
  cfg_user :: string
  cfg_password :: string
  cfg_database :: string
  cfg_port :: "number option"

text \<open>
  The payload of a result: the column rows, the table rows, or the rows and field metadata
  of an arbitrary statement.
\<close>

datatype ('row, 'hdr, 'f) data =
    Columns "('row, 'hdr) rows"
  | Tables "('row, 'hdr) rows"
  | RowsFields "('row, 'hdr) rows" 'f

record 'd DatabaseResult =
  success :: bool
  data :: "'d option"
  error :: "string option"
  message :: string

text \<open>\<^verbatim>\<open>config.port || 3306\<close>: an absent port and a falsy one both give the default.\<close>

definition port_or_default :: "number option \<Rightarrow> number" where
  "port_or_default p = (case p of None \<Rightarrow> Fin 3306 | Some n \<Rightarrow> if truthy_number n then n else Fin 3306)"

definition createConnection ::
  "('c, 'row, 'hdr, 'f) driver \<Rightarrow> DatabaseConfig \<Rightarrow> ('c, 'c) async" where
  "createConnection drv config =
     try_catch
       (await (driver_connect drv
                 \<lparr>opt_host = cfg_host config, opt_user = cfg_user config,
                  opt_password = cfg_password config, opt_database = cfg_database config,
                  opt_port = port_or_default (cfg_port config)\<rparr>)
          (\<lambda>connection. resolve connection))
       (\<lambda>error. throw (Error (''Failed to connect to database: '' @ message_or error ''Unknown error'')))"

text \<open>\<^verbatim>\<open>rows.length\<close>, which a result header does not have.\<close>

fun rows_length :: "('row, 'hdr) rows \<Rightarrow> nat option" where
  "rows_length (RowArray xs) = Some (length xs)"
| "rows_length (ResultHeader _) = None"

text \<open>\<^verbatim>\<open>columns.length > 0\<close>; \<^verbatim>\<open>undefined > 0\<close> is false.\<close>

definition length_positive :: "('row, 'hdr) rows \<Rightarrow> bool" where
  "length_positive r = (case rows_length r of Some n \<Rightarrow> n > 0 | None \<Rightarrow> False)"

text \<open>\<^verbatim>\<open>${columns.length}\<close>\<close>

definition length_text :: "('row, 'hdr) rows \<Rightarrow> string" where
  "length_text r = (case rows_length r of Some n \<Rightarrow> string_of_nat n | None \<Rightarrow> ''undefined'')"

text \<open>The finaliser shared by the four functions: \<^verbatim>\<open>if (connection) await connection.end()\<close>.\<close>

definition end_if_connected :: "('c, unit) async" where
  "end_if_connected =
     await read_connection (\<lambda>connection.
       case connection of Some c \<Rightarrow> driver_end c | None \<Rightarrow> resolve ())"

text \<open>
  The four functions below follow the source statement by statement; what they write to
  the console is left out (the \<^verbatim>\<open>query.substring\<close> that \<^verbatim>\<open>executeQuery\<close> prints before
  its \<^verbatim>\<open>try\<close> is applied to a string, by the type of \<open>query\<close>).
\<close>

definition getTableColumns_sql :: string where
  "getTableColumns_sql =
     ''\<newline>      SELECT \<newline>'' @
     ''        column_name as columnName,\<newline>'' @
     ''        column_type as columnType,\<newline>'' @
     ''        is_nullable as isNullable,\<newline>'' @
     ''        IFNULL(column_comment, '' @ [CHR 0x27, CHR 0x27] @ '') as columnComment,\<newline>'' @
     ''        column_default as columnDefault,\<newline>'' @
     ''        extra\<newline>'' @
     ''      FROM information_schema.columns \<newline>'' @
     ''      WHERE table_schema = ? AND table_name = ?\<newline>'' @
     ''      ORDER BY ordinal_position\<newline>'' @
     ''    ''"

definition getTableColumns ::
  "('c, 'row, 'hdr, 'f) driver \<Rightarrow> string \<Rightarrow> string \<Rightarrow> string \<Rightarrow> string \<Rightarrow> string
     \<Rightarrow> number option \<Rightarrow> ('c, ('row, 'hdr, 'f) data DatabaseResult) async" where
  "getTableColumns drv host user password database tableName port =
     await (assign_connection None) (\<lambda>_.
     try_finally
       (try_catch
          (await (createConnection drv
                    \<lparr>cfg_host = host, cfg_user = user, cfg_password = password,
                     cfg_database = database, cfg_port = port\<rparr>) (\<lambda>c.
           await (assign_connection (Some c)) (\<lambda>_.
           await (driver_execute drv c getTableColumns_sql
                    (Some [JString database, JString tableName])) (\<lambda>(rows, fields).
             let columns = rows in
             if length_positive columns then
               resolve \<lparr>success = True, data = Some (Columns columns), error = None,
                        message = ''Successfully retrieved '' @ length_text columns
                                  @ '' columns from table '' @ tableName\<rparr>
             else
               resolve \<lparr>success = False, data = None, error = None,
                        message = ''Table '' @ tableName
                                  @ '' does not exist or has no columns in database '' @ database\<rparr>))))
          (\<lambda>error.
             resolve \<lparr>success = False, data = None,
                      error = Some (message_or error ''Unknown error occurred''),
                      message = ''Failed to get columns for table '' @ tableName @ '': ''
                                @ message_or error ''Unknown error''\<rparr>))
       end_if_connected)"

definition getTables_sql :: string where
  "getTables_sql =
     ''\<newline>      SELECT \<newline>'' @
     ''        table_name as tableName,\<newline>'' @
     ''        IFNULL(table_comment, '' @ [CHR 0x27, CHR 0x27] @ '') as tableComment,\<newline>'' @
     ''        table_type as tableType,\<newline>'' @
     ''        IFNULL(engine, '' @ [CHR 0x27, CHR 0x27] @ '') as engine,\<newline>'' @
     ''        table_rows as tableRows\<newline>'' @
     ''      FROM information_schema.tables \<newline>'' @
     ''      WHERE table_schema = ?\<newline>'' @
     ''      ORDER BY table_name\<newline>'' @
     ''    ''"

definition getTables ::
  "('c, 'row, 'hdr, 'f) driver \<Rightarrow> string \<Rightarrow> string \<Rightarrow> string \<Rightarrow> string
     \<Rightarrow> number option \<Rightarrow> ('c, ('row, 'hdr, 'f) data DatabaseResult) async" where
  "getTables drv host user password database port =
     await (assign_connection None) (\<lambda>_.
     try_finally
       (try_catch
          (await (createConnection drv
                    \<lparr>cfg_host = host, cfg_user = user, cfg_password = password,
                     cfg_database = database, cfg_port = port\<rparr>) (\<lambda>c.
           await (assign_connection (Some c)) (\<lambda>_.
           await (driver_execute drv c getTables_sql (Some [JString database])) (\<lambda>(rows, fields).
             let tables = rows in
             resolve \<lparr>success = True, data = Some (Tables tables), error = None,
                      message = ''Successfully retrieved '' @ length_text tables
                                @ '' tables from database '' @ database\<rparr>))))
          (\<lambda>error.
             resolve \<lparr>success = False, data = None,
                      error = Some (message_or error ''Unknown error occurred''),
                      message = ''Failed to get tables from database '' @ database @ '': ''
                                @ message_or error ''Unknown error''\<rparr>))
       end_if_connected)"

definition executeQuery ::
  "('c, 'row, 'hdr, 'f) driver \<Rightarrow> string \<Rightarrow> string \<Rightarrow> string \<Rightarrow> string \<Rightarrow> string
     \<Rightarrow> jsval list option \<Rightarrow> number option
     \<Rightarrow> ('c, ('row, 'hdr, 'f) data DatabaseResult) async" where
  "executeQuery drv host user password database query params port =
     await (assign_connection None) (\<lambda>_.
     try_finally
       (try_catch
          (await (createConnection drv
                    \<lparr>cfg_host = host, cfg_user = user, cfg_password = password,
                     cfg_database = database, cfg_port = port\<rparr>) (\<lambda>c.
           await (assign_connection (Some c)) (\<lambda>_.
           await (driver_execute drv c query params) (\<lambda>(rows, fields).
             resolve \<lparr>success = True, data = Some (RowsFields rows fields), error = None,
                      message = ''Query executed successfully''\<rparr>))))
          (\<lambda>error.
             resolve \<lparr>success = False, data = None,
                      error = Some (message_or error ''Unknown error occurred''),
                      message = ''Failed to execute query: '' @ message_or error ''Unknown error''\<rparr>))
       end_if_connected)"

definition testConnection ::
  "('c, 'row, 'hdr, 'f) driver \<Rightarrow> string \<Rightarrow> string \<Rightarrow> string \<Rightarrow> string
     \<Rightarrow> number option \<Rightarrow> ('c, ('row, 'hdr, 'f) data DatabaseResult) async" where
  "testConnection drv host user password database port =
     await (assign_connection None) (\<lambda>_.
     try_finally
       (try_catch
          (await (createConnection drv
                    \<lparr>cfg_host = host, cfg_user = user, cfg_password = password,
                     cfg_database = database, cfg_port = port\<rparr>) (\<lambda>c.
           await (assign_connection (Some c)) (\<lambda>_.
           await (driver_execute drv c ''SELECT 1'' None) (\<lambda>_.
             resolve \<lparr>success = True, data = None, error = None,
                      message = ''Successfully connected to database '' @ database
                                @ ''@'' @ host\<rparr>))))
          (\<lambda>error.
             resolve \<lparr>success = False, data = None,
                      error = Some (message_or error ''Unknown error occurred''),
                      message = ''Failed to connect to database '' @ database @ ''@'' @ host
                                @ '': '' @ message_or error ''Unknown error''\<rparr>))
       end_if_connected)"

section \<open>The JavaScript runtime\<close>

text \<open>
  What the code asks of the runtime besides the driver: the string a value becomes inside
  a template literal, \<^verbatim>\<open>toLocaleString()\<close>, and \<^verbatim>\<open>JSON.stringify\<close> with indent 2. Quoting
  a string as JSON always succeeds; serialising a payload that came from the driver can
  throw (a \<^verbatim>\<open>BigInt\<close>, a cyclic value). \<open>JSON_data rt depth d\<close> is the text of the payload
  \<open>d\<close> at nesting depth \<open>depth\<close>, or what the serialisation throws.
\<close>

record 'd runtime =
  template_string :: "jsval \<Rightarrow> string"
  toLocaleString :: "jsval \<Rightarrow> string"
  JSON_quote :: "string \<Rightarrow> string"
  JSON_data :: "nat \<Rightarrow> 'd \<Rightarrow> thrown + string"

text \<open>A synchronous computation that returns or throws, and its use in an \<^verbatim>\<open>async\<close> function.\<close>

definition and_then :: "thrown + 'a \<Rightarrow> ('a \<Rightarrow> thrown + 'b) \<Rightarrow> thrown + 'b" where
  "and_then x k = (case x of Inl e \<Rightarrow> Inl e | Inr v \<Rightarrow> k v)"

definition sync :: "thrown + 'a \<Rightarrow> ('c, 'a) async" where
  "sync x = (\<lambda>s. (x, s))"

text \<open>
  \<^verbatim>\<open>JSON.stringify(result, null, 2)\<close> on a result object. The members come in the order of
  the object literals of the source: \<^verbatim>\<open>success\<close>, then \<^verbatim>\<open>data\<close> or \<^verbatim>\<open>error\<close> when
  present (no literal has both), then \<^verbatim>\<open>message\<close>.
\<close>

definition json_member :: "string \<Rightarrow> string \<Rightarrow> string" where
  "json_member key v = ''  '' @ [CHR 0x22] @ key @ [CHR 0x22] @ '': '' @ v"

fun join_members :: "string list \<Rightarrow> string" where
  "join_members [] = []"
| "join_members [m] = m"
| "join_members (m # ms) = m @ '',\<newline>'' @ join_members ms"

definition JSON_stringify :: "'d runtime \<Rightarrow> 'd DatabaseResult \<Rightarrow> thrown + string" where
  "JSON_stringify rt result =
     and_then
       (case data result of
          None \<Rightarrow> Inr []
        | Some d \<Rightarrow> and_then (JSON_data rt 1 d) (\<lambda>t. Inr [json_member ''data'' t]))
       (\<lambda>data_member.
          Inr (''{\<newline>'' @
               join_members
                 ([json_member ''success'' (if success result then ''true'' else ''false'')]
                  @ data_member
                  @ (case error result of
                       None \<Rightarrow> []
                     | Some e \<Rightarrow> [json_member ''error'' (JSON_quote rt e)])
                  @ [json_member ''message'' (JSON_quote rt (message result))])
               @ ''\<newline>}''))"

section \<open>Tool dispatcher\<close>

text \<open>
  The type guards of the server, each conjunct in the source's order. A guard returns a
  falsy \<open>args\<close> itself rather than \<^verbatim>\<open>false\<close>; its callers only test the result.
\<close>

definition isDatabaseConnectionArgs :: "jsval \<Rightarrow> bool" where
  "isDatabaseConnectionArgs args \<longleftrightarrow>
     truthy args \<and>
     typeof (get args ''host'') = ''string'' \<and>
     typeof (get args ''user'') = ''string'' \<and>
     typeof (get args ''password'') = ''string'' \<and>
     typeof (get args ''database'') = ''string'' \<and>
     (get args ''port'' = JUndefined \<or> typeof (get args ''port'') = ''number'')"

definition isGetTableColumnsArgs :: "jsval \<Rightarrow> bool" where
  "isGetTableColumnsArgs args \<longleftrightarrow>
     truthy args \<and>
     typeof (get args ''host'') = ''string'' \<and>
     typeof (get args ''user'') = ''string'' \<and>
     typeof (get args ''password'') = ''string'' \<and>
     typeof (get args ''database'') = ''string'' \<and>
     typeof (get args ''tableName'') = ''string'' \<and>
     (get args ''port'' = JUndefined \<or> typeof (get args ''port'') = ''number'')"

definition isExecuteQueryArgs :: "jsval \<Rightarrow> bool" where
  "isExecuteQueryArgs args \<longleftrightarrow>
     truthy args \<and>
     typeof (get args ''host'') = ''string'' \<and>
     typeof (get args ''user'') = ''string'' \<and>
     typeof (get args ''password'') = ''string'' \<and>
     typeof (get args ''database'') = ''string'' \<and>
     typeof (get args ''query'') = ''string'' \<and>
     (get args ''port'' = JUndefined \<or> typeof (get args ''port'') = ''number'') \<and>
     (get args ''params'' = JUndefined \<or> isArray (get args ''params''))"

text \<open>
  Once a guard has passed, the source hands \<^verbatim>\<open>args.host\<close> and the other fields to the
  database function at the guarded type. The views below read a value at that type; their
  last equations are for values the guard has excluded.
\<close>

fun as_string :: "jsval \<Rightarrow> string" where
  "as_string (JString s) = s"
| "as_string _ = []"

fun as_number :: "jsval \<Rightarrow> number option" where
  "as_number (JNumber n) = Some n"
| "as_number _ = None"

fun as_array :: "jsval \<Rightarrow> jsval list option" where
  "as_array (JArray xs) = Some xs"
| "as_array _ = None"

record content_item =
  item_type :: string
  item_text :: string

record response =
  content :: "content_item list"
  isError :: "bool option"

definition text_response :: "string \<Rightarrow> response" where
  "text_response t = \<lparr>content = [\<lparr>item_type = ''text'', item_text = t\<rparr>], isError = None\<rparr>"

definition error_response :: "string \<Rightarrow> response" where
  "error_response t = \<lparr>content = [\<lparr>item_type = ''text'', item_text = t\<rparr>], isError = Some True\<rparr>"

text \<open>
  The handler of \<^verbatim>\<open>CallToolRequestSchema\<close>. The request's \<open>name\<close> is a string; its
  \<open>arguments\<close> are any value, \<open>JUndefined\<close> when the request has none. The serialisation
  of the result stands inside the \<^verbatim>\<open>try\<close>: when it throws, the \<^verbatim>\<open>catch\<close> answers.
\<close>

definition callTool ::
  "('c, 'row, 'hdr, 'f) driver \<Rightarrow> ('row, 'hdr, 'f) data runtime
     \<Rightarrow> string \<Rightarrow> jsval \<Rightarrow> ('c, response) async" where
  "callTool drv rt name args =
     (if \<not> truthy args \<or> typeof args \<noteq> ''object'' then
        resolve (error_response ''Error: Missing or invalid arguments'')
      else
        try_catch
          (await
             (if name = ''get_table_columns'' then
                (if \<not> isGetTableColumnsArgs args then
                   throw (Error ''Invalid arguments for get_table_columns. Required: host, user, password, database, tableName'')
                 else
                   getTableColumns drv
                     (as_string (get args ''host''))
                     (as_string (get args ''user''))
                     (as_string (get args ''password''))
                     (as_string (get args ''database''))
                     (as_string (get args ''tableName''))
                     (as_number (get args ''port'')))
              else if name = ''get_tables'' then
                (if \<not> isDatabaseConnectionArgs args then
                   throw (Error ''Invalid arguments for get_tables. Required: host, user, password, database'')
                 else
                   getTables drv
                     (as_string (get args ''host''))
                     (as_string (get args ''user''))
                     (as_string (get args ''password''))
                     (as_string (get args ''database''))
                     (as_number (get args ''port'')))
              else if name = ''execute_query'' then
                (if \<not> isExecuteQueryArgs args then
                   throw (Error ''Invalid arguments for execute_query. Required: host, user, password, database, query'')
                 else
                   executeQuery drv
                     (as_string (get args ''host''))
                     (as_string (get args ''user''))
                     (as_string (get args ''password''))
                     (as_string (get args ''database''))
                     (as_string (get args ''query''))
                     (as_array (get args ''params''))
                     (as_number (get args ''port'')))
              else if name = ''test_connection'' then
                (if \<not> isDatabaseConnectionArgs args then
                   throw (Error ''Invalid arguments for test_connection. Required: host, user, password, database'')
                 else
                   testConnection drv
                     (as_string (get args ''host''))
                     (as_string (get args ''user''))
                     (as_string (get args ''password''))
                     (as_string (get args ''database''))
                     (as_number (get args ''port'')))
              else
                throw (Error (''Unknown tool: '' @ name)))
             (\<lambda>result.
                await (sync (JSON_stringify rt result)) (\<lambda>text.
                resolve (text_response text))))
          (\<lambda>error. resolve (error_response (''Error: '' @ message_or error ''Unknown error''))))"

section \<open>Command line\<close>





















section \<open>Vocabulary of the properties\<close>

text \<open>The options a database function hands to the driver.\<close>

definition connect_options ::
  "string \<Rightarrow> string \<Rightarrow> string \<Rightarrow> string \<Rightarrow> number option \<Rightarrow> ConnectionOptions" where
  "connect_options host user password database port =
     \<lparr>opt_host = host, opt_user = user, opt_password = password, opt_database = database,
      opt_port = port_or_default port\<rparr>"

text \<open>What \<^verbatim>\<open>createConnection\<close> throws when the driver rejected with \<open>e\<close>.\<close>

definition connect_failure :: "thrown \<Rightarrow> thrown" where
  "connect_failure e = Error (''Failed to connect to database: '' @ message_or e ''Unknown error'')"

text \<open>The result built by the \<^verbatim>\<open>catch\<close> block of a database function, given how its message begins.\<close>

definition caught :: "string \<Rightarrow> thrown \<Rightarrow> 'd DatabaseResult" where
  "caught intro e =
     \<lparr>success = False, data = None, error = Some (message_or e ''Unknown error occurred''),
      message = intro @ message_or e ''Unknown error''\<rparr>"

fun is_connect :: "'c event \<Rightarrow> bool" where
  "is_connect (Connect _) = True"
| "is_connect _ = False"

fun is_end :: "'c event \<Rightarrow> bool" where
  "is_end (End _) = True"
| "is_end _ = False"

definition opens :: "'c event list \<Rightarrow> nat" where
  "opens evs = length (filter is_connect evs)"

definition closes :: "'c event list \<Rightarrow> nat" where
  "closes evs = length (filter is_end evs)"

text \<open>
  The connection lifecycle of one call, given what the driver answered to the open: one
  open, first in the log; after a successful open one close, of the connection that was
  opened, last in the log; after a failed open no close.
\<close>

definition one_open_one_close :: "thrown + 'c \<Rightarrow> 'c event list \<Rightarrow> bool" where
  "one_open_one_close opened evs \<longleftrightarrow>
     evs \<noteq> [] \<and> is_connect (hd evs) \<and> opens evs = 1 \<and>
     (case opened of
        Inl e \<Rightarrow> closes evs = 0
      | Inr c \<Rightarrow> closes evs = 1 \<and> last evs = End c)"

text \<open>
  The envelope invariant of the specification: exactly one of \<open>success\<close> and
  (failure with a message) holds, and a failure carries no data.
\<close>

definition envelope_ok :: "'d DatabaseResult \<Rightarrow> bool" where
  "envelope_ok r \<longleftrightarrow>
     ((success r \<and> \<not> (\<not> success r \<and> message r \<noteq> [])) \<or>
      (\<not> success r \<and> (\<not> success r \<and> message r \<noteq> []))) \<and>
     (\<not> success r \<longrightarrow> data r = None)"

definition tool_names :: "string list" where
  "tool_names = [''get_table_columns'', ''get_tables'', ''execute_query'', ''test_connection'']"

text \<open>The guard the dispatcher applies for a tool name.\<close>

definition guard_of :: "string \<Rightarrow> jsval \<Rightarrow> bool" where
  "guard_of name args =
     (if name = ''get_table_columns'' then isGetTableColumnsArgs args
      else if name = ''execute_query'' then isExecuteQueryArgs args
      else isDatabaseConnectionArgs args)"


text \<open>The database function the dispatcher calls for a tool name, on arguments that passed.\<close>

definition invoked ::
  "('c, 'row, 'hdr, 'f) driver \<Rightarrow> string \<Rightarrow> jsval
     \<Rightarrow> ('c, ('row, 'hdr, 'f) data DatabaseResult) async" where
  "invoked drv name args =
     (if name = ''get_table_columns'' then
        getTableColumns drv (as_string (get args ''host'')) (as_string (get args ''user''))
          (as_string (get args ''password'')) (as_string (get args ''database''))
          (as_string (get args ''tableName'')) (as_number (get args ''port''))
      else if name = ''get_tables'' then
        getTables drv (as_string (get args ''host'')) (as_string (get args ''user''))
          (as_string (get args ''password'')) (as_string (get args ''database''))
          (as_number (get args ''port''))
      else if name = ''execute_query'' then
        executeQuery drv (as_string (get args ''host'')) (as_string (get args ''user''))
          (as_string (get args ''password'')) (as_string (get args ''database''))
          (as_string (get args ''query'')) (as_array (get args ''params''))
          (as_number (get args ''port''))
      else
        testConnection drv (as_string (get args ''host'')) (as_string (get args ''user''))
          (as_string (get args ''password'')) (as_string (get args ''database''))
          (as_number (get args ''port'')))"

text \<open>The text of the error a failed guard raises for a tool name.\<close>

definition required_fields :: "string \<Rightarrow> string" where
  "required_fields name =
     (if name = ''get_table_columns'' then ''host, user, password, database, tableName''
      else if name = ''execute_query'' then ''host, user, password, database, query''
      else ''host, user, password, database'')"

text \<open>
  The protocol the specification gives for all four functions (section 4.2): open one
  connection, execute one statement, build the result from the rows, release the
  connection, return. A failed open ends the call with the \<^verbatim>\<open>catch\<close> result and no
  release; a failed statement ends it with the \<^verbatim>\<open>catch\<close> result after the release.
\<close>

definition protocol ::
  "('c, 'row, 'hdr, 'f) driver \<Rightarrow> ConnectionOptions \<Rightarrow> string \<Rightarrow> jsval list option \<Rightarrow> string
     \<Rightarrow> (('row, 'hdr) rows \<Rightarrow> 'f \<Rightarrow> 'd DatabaseResult) \<Rightarrow> ('c, 'd DatabaseResult) async" where
  "protocol drv opts sql params intro on_rows s =
     (case mysql_createConnection drv opts of
        Inl e \<Rightarrow>
          (Inr (caught intro (connect_failure e)),
           \<lparr>calls = calls s @ [Connect opts], connection_var = None\<rparr>)
      | Inr c \<Rightarrow>
          (Inr (case connection_execute drv c sql params of
                  Inl e \<Rightarrow> caught intro e
                | Inr (rs, meta) \<Rightarrow> on_rows rs meta),
           \<lparr>calls = calls s @ [Connect opts, Execute c sql params, End c],
            connection_var = Some c\<rparr>))"

text \<open>The error raised inside the \<^verbatim>\<open>try\<close> block of a database function, if there is one.\<close>

definition driver_error ::
  "('c, 'row, 'hdr, 'f) driver \<Rightarrow> ConnectionOptions \<Rightarrow> string \<Rightarrow> jsval list option
     \<Rightarrow> thrown option" where
  "driver_error drv opts sql params =
     (case mysql_createConnection drv opts of
        Inl e \<Rightarrow> Some (connect_failure e)
      | Inr c \<Rightarrow>
          (case connection_execute drv c sql params of
             Inl e \<Rightarrow> Some e
           | Inr _ \<Rightarrow> None))"

text \<open>The results of the \<^verbatim>\<open>try\<close> blocks, as functions of the rows and field metadata.\<close>

definition columns_result ::
  "string \<Rightarrow> string \<Rightarrow> ('row, 'hdr) rows \<Rightarrow> 'f \<Rightarrow> ('row, 'hdr, 'f) data DatabaseResult" where
  "columns_result database tableName rs meta =
     (if length_positive rs then
        \<lparr>success = True, data = Some (Columns rs), error = None,
         message = ''Successfully retrieved '' @ length_text rs @ '' columns from table '' @ tableName\<rparr>
      else
        \<lparr>success = False, data = None, error = None,
         message = ''Table '' @ tableName @ '' does not exist or has no columns in database ''
                   @ database\<rparr>)"

definition tables_result ::
  "string \<Rightarrow> ('row, 'hdr) rows \<Rightarrow> 'f \<Rightarrow> ('row, 'hdr, 'f) data DatabaseResult" where
  "tables_result database rs meta =
     \<lparr>success = True, data = Some (Tables rs), error = None,
      message = ''Successfully retrieved '' @ length_text rs @ '' tables from database '' @ database\<rparr>"

definition query_result :: "('row, 'hdr) rows \<Rightarrow> 'f \<Rightarrow> ('row, 'hdr, 'f) data DatabaseResult" where
  "query_result rs meta =
     \<lparr>success = True, data = Some (RowsFields rs meta), error = None,
      message = ''Query executed successfully''\<rparr>"

definition test_result ::
  "string \<Rightarrow> string \<Rightarrow> ('row, 'hdr) rows \<Rightarrow> 'f \<Rightarrow> ('row, 'hdr, 'f) data DatabaseResult" where
  "test_result host database rs meta =
     \<lparr>success = True, data = None, error = None,
      message = ''Successfully connected to database '' @ database @ ''@'' @ host\<rparr>"

subsection \<open>A concrete driver\<close>

text \<open>
  A small database for the instances below: it accepts connections to host \<open>db\<close> only;
  schema \<open>shop\<close> has one table, \<open>orders\<close>, with two columns; a row is its name. A
  statement bound to a schema name, or to a schema and a table name, is answered as the
  catalog query on them; a statement without parameters is a syntax error unless it is
  \<^verbatim>\<open>SELECT 1\<close>.
\<close>

definition sample_driver :: "(nat, string, unit, unit) driver" where
  "sample_driver =
     \<lparr>mysql_createConnection =
        (\<lambda>opts. if opt_host opts = ''db'' then Inr 7 else Inl (Error ''ECONNREFUSED'')),
      connection_execute =
        (\<lambda>c sql params.
           case params of
             Some [JString d, JString t] \<Rightarrow>
               Inr (RowArray (if d = ''shop'' \<and> t = ''orders'' then [''id'', ''total''] else []), ())
           | Some [JString d] \<Rightarrow> Inr (RowArray (if d = ''shop'' then [''orders''] else []), ())
           | _ \<Rightarrow> if sql = ''SELECT 1'' then Inr (RowArray [''1''], ())
                  else Inl (Error ''You have an error in your SQL syntax''))\<rparr>"

text \<open>
  Two runtimes: one serialises every payload, the other meets a value in the payload of a
  query that it cannot serialise.
\<close>

definition sample_runtime :: "('row, unit, unit) data runtime" where
  "sample_runtime =
     \<lparr>template_string = (\<lambda>v. ''[value]''),
      toLocaleString = (\<lambda>v. ''[value]''),
      JSON_quote = (\<lambda>t. [CHR 0x22] @ t @ [CHR 0x22]),
      JSON_data = (\<lambda>depth d. Inr ''[data]'')\<rparr>"

definition bigint_runtime :: "('row, unit, unit) data runtime" where
  "bigint_runtime =
     \<lparr>template_string = (\<lambda>v. ''[value]''),
      toLocaleString = (\<lambda>v. ''[value]''),
      JSON_quote = (\<lambda>t. [CHR 0x22] @ t @ [CHR 0x22]),
      JSON_data = (\<lambda>depth d.
        case d of
          RowsFields rs meta \<Rightarrow> Inl (Error ''Do not know how to serialize a BigInt'')
        | _ \<Rightarrow> Inr ''[data]'')\<rparr>"





definition sample_args :: jsval where
  "sample_args =
     JObject [(''host'', JString ''db''), (''user'', JString ''root''), (''password'', JString ''pw''),
              (''database'', JString ''shop''), (''port'', JNumber (Fin 0))]"

section \<open>The functions follow the protocol\<close>

lemmas async_defs = resolve_def throw_def await_def try_catch_def try_finally_def record_call_def
  driver_connect_def driver_execute_def driver_end_def assign_connection_def read_connection_def
  end_if_connected_def createConnection_def

lemmas vocabulary_defs = connect_options_def caught_def connect_failure_def protocol_def

lemma getTableColumns_protocol:
  "getTableColumns drv host user password database tableName port =
     protocol drv (connect_options host user password database port) getTableColumns_sql
       (Some [JString database, JString tableName])
       (''Failed to get columns for table '' @ tableName @ '': '')
       (columns_result database tableName)"
  by (rule ext)
     (simp add: getTableColumns_def async_defs vocabulary_defs columns_result_def
           split: sum.splits prod.splits)

lemma getTables_protocol:
  "getTables drv host user password database port =
     protocol drv (connect_options host user password database port) getTables_sql
       (Some [JString database])
       (''Failed to get tables from database '' @ database @ '': '')
       (tables_result database)"
  by (rule ext)
     (simp add: getTables_def async_defs vocabulary_defs tables_result_def
           split: sum.splits prod.splits)

lemma executeQuery_protocol:
  "executeQuery drv host user password database query params port =
     protocol drv (connect_options host user password database port) query params
       ''Failed to execute query: '' query_result"
  by (rule ext)
     (simp add: executeQuery_def async_defs vocabulary_defs query_result_def
           split: sum.splits prod.splits)

lemma testConnection_protocol:
  "testConnection drv host user password database port =
     protocol drv (connect_options host user password database port) ''SELECT 1'' None
       (''Failed to connect to database '' @ database @ ''@'' @ host @ '': '')
       (test_result host database)"
  by (rule ext)
     (simp add: testConnection_def async_defs vocabulary_defs test_result_def
           split: sum.splits prod.splits)

lemmas database_functions_protocol =
  getTableColumns_protocol getTables_protocol executeQuery_protocol testConnection_protocol

subsection \<open>What the protocol guarantees\<close>

lemma protocol_caught:
  assumes "driver_error drv opts sql params = Some e"
  shows "fst (protocol drv opts sql params intro on_rows s) = Inr (caught intro e)"
  using assms by (auto simp add: protocol_def driver_error_def split: sum.splits)

lemma protocol_rows:
  assumes "mysql_createConnection drv opts = Inr c"
    and "connection_execute drv c sql params = Inr (rs, meta)"
  shows "fst (protocol drv opts sql params intro on_rows s) = Inr (on_rows rs meta)"
  using assms by (simp add: protocol_def)

lemma run_protocol:
  "run (protocol drv opts sql params intro on_rows) =
     (fst (protocol drv opts sql params intro on_rows \<lparr>calls = [], connection_var = None\<rparr>),
      case mysql_createConnection drv opts of
        Inl e \<Rightarrow> [Connect opts]
      | Inr c \<Rightarrow> [Connect opts, Execute c sql params, End c])"
  by (simp add: run_def protocol_def split: sum.splits)

lemma caught_fields:
  "success (caught intro e) = False"
  "data (caught intro e) = None"
  "error (caught intro e) = Some (message_or e ''Unknown error occurred'')"
  "message (caught intro e) = intro @ message_or e ''Unknown error''"
  by (simp_all add: caught_def)

lemma protocol_run_resolves:
  "\<exists>r. fst (run (protocol drv opts sql params intro on_rows)) = Inr r"
  by (simp add: run_def protocol_def split: sum.splits)

lemma protocol_run_caught:
  assumes "driver_error drv opts sql params = Some e"
  shows "fst (run (protocol drv opts sql params intro on_rows)) = Inr (caught intro e)"
  using assms by (simp add: run_protocol protocol_caught)

lemma protocol_catches:
  "\<exists>r. fst (run (protocol drv opts sql params intro on_rows)) = Inr r \<and>
       (driver_error drv opts sql params = Some e \<longrightarrow>
          success r = False \<and> data r = None \<and>
          error r = Some (message_or e ''Unknown error occurred'') \<and>
          message r = intro @ message_or e ''Unknown error'')"
proof (cases "driver_error drv opts sql params = Some e")
  case True
  then show ?thesis
    by (simp add: protocol_run_caught caught_fields)
next
  case False
  then show ?thesis
    using protocol_run_resolves [of drv opts sql params intro on_rows] by auto
qed

lemma testConnection_catches:
  "\<exists>r. fst (run (testConnection drv host user password database port)) = Inr r \<and>
        (driver_error drv (connect_options host user password database port) ''SELECT 1'' None = Some e \<longrightarrow>
           success r = False \<and> data r = None \<and>
           error r = Some (message_or e ''Unknown error occurred'') \<and>
           message r = ''Failed to connect to database '' @ database @ ''@'' @ host @ '': ''
                       @ message_or e ''Unknown error'')"
  using protocol_catches [of drv "connect_options host user password database port" "''SELECT 1''" None
      "''Failed to connect to database '' @ database @ ''@'' @ host @ '': ''" "test_result host database" e]
  by (simp add: testConnection_protocol)

lemma getTables_catches:
  "\<exists>r. fst (run (getTables drv host user password database port)) = Inr r \<and>
        (driver_error drv (connect_options host user password database port) getTables_sql
           (Some [JString database]) = Some e \<longrightarrow>
           success r = False \<and> data r = None \<and>
           error r = Some (message_or e ''Unknown error occurred'') \<and>
           message r = ''Failed to get tables from database '' @ database @ '': ''
                       @ message_or e ''Unknown error'')"
  using protocol_catches [of drv "connect_options host user password database port" getTables_sql
      "Some [JString database]" "''Failed to get tables from database '' @ database @ '': ''"
      "tables_result database" e]
  by (simp add: getTables_protocol)

lemma getTableColumns_catches:
  "\<exists>r. fst (run (getTableColumns drv host user password database tableName port)) = Inr r \<and>
        (driver_error drv (connect_options host user password database port) getTableColumns_sql
           (Some [JString database, JString tableName]) = Some e \<longrightarrow>
           success r = False \<and> data r = None \<and>
           error r = Some (message_or e ''Unknown error occurred'') \<and>
           message r = ''Failed to get columns for table '' @ tableName @ '': ''
                       @ message_or e ''Unknown error'')"
  using protocol_catches [of drv "connect_options host user password database port" getTableColumns_sql
      "Some [JString database, JString tableName]" "''Failed to get columns for table '' @ tableName @ '': ''"
      "columns_result database tableName" e]
  by (simp add: getTableColumns_protocol)

lemma executeQuery_catches:
  "\<exists>r. fst (run (executeQuery drv host user password database query params port)) = Inr r \<and>
        (driver_error drv (connect_options host user password database port) query params = Some e \<longrightarrow>
           success r = False \<and> data r = None \<and>
           error r = Some (message_or e ''Unknown error occurred'') \<and>
           message r = ''Failed to execute query: '' @ message_or e ''Unknown error'')"
  using protocol_catches [of drv "connect_options host user password database port" query params
      "''Failed to execute query: ''" query_result e]
  by (simp add: executeQuery_protocol)

section \<open>Properties of the database access functions\<close>

text \<open>
  C1: when the catalog query of \<^verbatim>\<open>getTableColumns\<close> returns an array of zero rows, the
  function returns a result with \<open>success = False\<close>, no data, and the message
  \<^verbatim>\<open>Table <tableName> does not exist or has no columns in database <database>\<close>, which
  names the table and the database; when it returns one or more rows, the function
  returns \<open>success = True\<close> with exactly those rows as data.
\<close>

theorem getTableColumns_rows_decide_success:
  assumes "mysql_createConnection drv (connect_options host user password database port) = Inr c"
    and "connection_execute drv c getTableColumns_sql (Some [JString database, JString tableName])
           = Inr (RowArray rs, meta)"
  shows "\<exists>r. fst (run (getTableColumns drv host user password database tableName port)) = Inr r \<and>
           (rs = [] \<longrightarrow>
              success r = False \<and> data r = None \<and>
              message r = ''Table '' @ tableName @ '' does not exist or has no columns in database '' @ database \<and>
              sublist tableName (message r) \<and> sublist database (message r)) \<and>
           (rs \<noteq> [] \<longrightarrow> success r = True \<and> data r = Some (Columns (RowArray rs)))"
proof -
  let ?m = "''Table '' @ tableName @ '' does not exist or has no columns in database '' @ database"
  have r: "fst (run (getTableColumns drv host user password database tableName port))
             = Inr (columns_result database tableName (RowArray rs) meta)"
    by (simp add: getTableColumns_protocol run_protocol protocol_rows [OF assms])
  have t: "sublist tableName ?m"
    by (rule sublist_appendI)
  have "?m = (''Table '' @ tableName @ '' does not exist or has no columns in database '') @ database @ []"
    by simp
  then have d: "sublist database ?m"
    by (metis sublist_appendI)
  show ?thesis
    using r t d by (simp add: columns_result_def length_positive_def)
qed

theorem getTableColumns_rows_decide_success_witness:
  "mysql_createConnection sample_driver (connect_options ''db'' ''root'' ''pw'' ''shop'' None) = Inr 7 \<and>
   connection_execute sample_driver 7 getTableColumns_sql (Some [JString ''shop'', JString ''users''])
     = Inr (RowArray [], ()) \<and>
   connection_execute sample_driver 7 getTableColumns_sql (Some [JString ''shop'', JString ''orders''])
     = Inr (RowArray [''id'', ''total''], ()) \<and>
   (\<exists>r. fst (run (getTableColumns sample_driver ''db'' ''root'' ''pw'' ''shop'' ''users'' None)) = Inr r \<and>
        success r = False \<and> data r = None \<and>
        message r = ''Table users does not exist or has no columns in database shop'') \<and>
   (\<exists>r. fst (run (getTableColumns sample_driver ''db'' ''root'' ''pw'' ''shop'' ''orders'' None)) = Inr r \<and>
        success r = True \<and> data r = Some (Columns (RowArray [''id'', ''total''])))"
proof -
  have c: "mysql_createConnection sample_driver (connect_options ''db'' ''root'' ''pw'' ''shop'' None) = Inr 7"
    by (simp add: sample_driver_def connect_options_def)
  have e0: "connection_execute sample_driver 7 getTableColumns_sql (Some [JString ''shop'', JString ''users''])
              = Inr (RowArray [], ())"
    by (simp add: sample_driver_def)
  have e2: "connection_execute sample_driver 7 getTableColumns_sql (Some [JString ''shop'', JString ''orders''])
              = Inr (RowArray [''id'', ''total''], ())"
    by (simp add: sample_driver_def)
  show ?thesis
    using c e0 e2 getTableColumns_rows_decide_success [OF c e0]
      getTableColumns_rows_decide_success [OF c e2]
    by auto
qed

text \<open>
  C3: none of the four functions lets an exception escape: whatever the driver does on
  open and on execute, the call resolves with a result, and when the open or the statement
  raised \<open>e\<close> (for the open, the error \<^verbatim>\<open>createConnection\<close> wraps it in), the result has
  \<open>success = False\<close>, no data, the error string of \<open>e\<close> and a message that ends with it.
\<close>

theorem database_functions_catch_driver_errors:
  "(\<exists>r. fst (run (testConnection drv host user password database port)) = Inr r \<and>
        (driver_error drv (connect_options host user password database port) ''SELECT 1'' None = Some e \<longrightarrow>
           success r = False \<and> data r = None \<and>
           error r = Some (message_or e ''Unknown error occurred'') \<and>
           message r = ''Failed to connect to database '' @ database @ ''@'' @ host @ '': ''
                       @ message_or e ''Unknown error'')) \<and>
   (\<exists>r. fst (run (getTables drv host user password database port)) = Inr r \<and>
        (driver_error drv (connect_options host user password database port) getTables_sql
           (Some [JString database]) = Some e \<longrightarrow>
           success r = False \<and> data r = None \<and>
           error r = Some (message_or e ''Unknown error occurred'') \<and>
           message r = ''Failed to get tables from database '' @ database @ '': ''
                       @ message_or e ''Unknown error'')) \<and>
   (\<exists>r. fst (run (getTableColumns drv host user password database tableName port)) = Inr r \<and>
        (driver_error drv (connect_options host user password database port) getTableColumns_sql
           (Some [JString database, JString tableName]) = Some e \<longrightarrow>
           success r = False \<and> data r = None \<and>
           error r = Some (message_or e ''Unknown error occurred'') \<and>
           message r = ''Failed to get columns for table '' @ tableName @ '': ''
                       @ message_or e ''Unknown error'')) \<and>
   (\<exists>r. fst (run (executeQuery drv host user password database query params port)) = Inr r \<and>
        (driver_error drv (connect_options host user password database port) query params = Some e \<longrightarrow>
           success r = False \<and> data r = None \<and>
           error r = Some (message_or e ''Unknown error occurred'') \<and>
           message r = ''Failed to execute query: '' @ message_or e ''Unknown error''))"
  by (intro conjI testConnection_catches getTables_catches getTableColumns_catches executeQuery_catches)

theorem database_functions_catch_driver_errors_witness:
  "driver_error sample_driver (connect_options ''elsewhere'' ''root'' ''pw'' ''shop'' None)
     ''SELECT 1'' None = Some (Error ''Failed to connect to database: ECONNREFUSED'') \<and>
   driver_error sample_driver (connect_options ''db'' ''root'' ''pw'' ''shop'' None)
     ''SELEC 1'' None = Some (Error ''You have an error in your SQL syntax'') \<and>
   (\<exists>r. fst (run (testConnection sample_driver ''elsewhere'' ''root'' ''pw'' ''shop'' None)) = Inr r \<and>
        success r = False \<and> data r = None \<and>
        error r = Some ''Failed to connect to database: ECONNREFUSED'' \<and>
        message r = ''Failed to connect to database shop@elsewhere: Failed to connect to database: ECONNREFUSED'') \<and>
   (\<exists>r. fst (run (executeQuery sample_driver ''db'' ''root'' ''pw'' ''shop'' ''SELEC 1'' None None)) = Inr r \<and>
        success r = False \<and> data r = None \<and>
        error r = Some ''You have an error in your SQL syntax'' \<and>
        message r = ''Failed to execute query: You have an error in your SQL syntax'')"
proof -
  have a: "driver_error sample_driver (connect_options ''elsewhere'' ''root'' ''pw'' ''shop'' None)
             ''SELECT 1'' None = Some (Error ''Failed to connect to database: ECONNREFUSED'')"
    by (simp add: driver_error_def sample_driver_def connect_options_def connect_failure_def)
  have b: "driver_error sample_driver (connect_options ''db'' ''root'' ''pw'' ''shop'' None)
             ''SELEC 1'' None = Some (Error ''You have an error in your SQL syntax'')"
    by (simp add: driver_error_def sample_driver_def connect_options_def)
  show ?thesis
    using a b
      database_functions_catch_driver_errors [of sample_driver "''elsewhere''" "''root''" "''pw''"
        "''shop''" None "Error ''Failed to connect to database: ECONNREFUSED''" "''t''" "''q''" None]
      database_functions_catch_driver_errors [of sample_driver "''db''" "''root''" "''pw''"
        "''shop''" None "Error ''You have an error in your SQL syntax''" "''t''" "''SELEC 1''" None]
    by auto
qed

lemma protocol_lifecycle:
  "one_open_one_close (mysql_createConnection drv opts)
     (snd (run (protocol drv opts sql params intro on_rows)))"
  by (simp add: run_protocol one_open_one_close_def opens_def closes_def split: sum.splits)

text \<open>
  C4: every call of one of the four functions opens exactly one connection; when the open
  succeeded, the call closes that connection exactly once, as its last driver call before
  it returns, whether the statement succeeded or raised; when the open failed there is
  nothing to close and no close is made.
\<close>

theorem one_open_and_one_close_per_call:
  "one_open_one_close
     (mysql_createConnection drv (connect_options host user password database port))
     (snd (run (testConnection drv host user password database port))) \<and>
   one_open_one_close
     (mysql_createConnection drv (connect_options host user password database port))
     (snd (run (getTables drv host user password database port))) \<and>
   one_open_one_close
     (mysql_createConnection drv (connect_options host user password database port))
     (snd (run (getTableColumns drv host user password database tableName port))) \<and>
   one_open_one_close
     (mysql_createConnection drv (connect_options host user password database port))
     (snd (run (executeQuery drv host user password database query params port)))"
  by (simp add: database_functions_protocol protocol_lifecycle)

theorem one_open_and_one_close_per_call_witness:
  "snd (run (executeQuery sample_driver ''db'' ''root'' ''pw'' ''shop'' ''SELEC 1'' None None)) =
     [Connect (connect_options ''db'' ''root'' ''pw'' ''shop'' None), Execute 7 ''SELEC 1'' None, End 7] \<and>
   one_open_one_close (Inr 7)
     (snd (run (executeQuery sample_driver ''db'' ''root'' ''pw'' ''shop'' ''SELEC 1'' None None))) \<and>
   snd (run (getTables sample_driver ''elsewhere'' ''root'' ''pw'' ''shop'' None)) =
     [Connect (connect_options ''elsewhere'' ''root'' ''pw'' ''shop'' None)] \<and>
   one_open_one_close (Inl (Error ''ECONNREFUSED''))
     (snd (run (getTables sample_driver ''elsewhere'' ''root'' ''pw'' ''shop'' None)))"
proof -
  have a: "mysql_createConnection sample_driver (connect_options ''db'' ''root'' ''pw'' ''shop'' None) = Inr 7"
    by (simp add: sample_driver_def connect_options_def)
  have b: "mysql_createConnection sample_driver (connect_options ''elsewhere'' ''root'' ''pw'' ''shop'' None)
             = Inl (Error ''ECONNREFUSED'')"
    by (simp add: sample_driver_def connect_options_def)
  show ?thesis
    using one_open_and_one_close_per_call [of sample_driver "''db''" "''root''" "''pw''" "''shop''" None
        "''t''" "''SELEC 1''" None]
      one_open_and_one_close_per_call [of sample_driver "''elsewhere''" "''root''" "''pw''" "''shop''" None
        "''t''" "''SELEC 1''" None]
    by (simp add: a b executeQuery_protocol getTables_protocol run_protocol)
qed

lemma order_by_table_name: "sublist ''ORDER BY table_name'' getTables_sql"
  unfolding getTables_sql_def by code_simp

text \<open>
  C5: when the connection and the catalog query of \<^verbatim>\<open>getTables\<close> succeed, the result has
  \<open>success = True\<close> and its data are the rows the query returned, unchanged and in the
  order the database gave them; the statement sent is the catalog query, which orders by
  \<^verbatim>\<open>table_name\<close>, bound to the schema name. A schema with zero tables gives
  \<open>success = True\<close> with the empty array, whereas a failed connection gives
  \<open>success = False\<close>.
\<close>

theorem getTables_success_returns_rows:
  "(mysql_createConnection drv (connect_options host user password database port) = Inr c \<and>
    connection_execute drv c getTables_sql (Some [JString database]) = Inr (RowArray tables, meta) \<longrightarrow>
      (\<exists>r. run (getTables drv host user password database port) =
              (Inr r, [Connect (connect_options host user password database port),
                       Execute c getTables_sql (Some [JString database]), End c]) \<and>
           success r = True \<and> data r = Some (Tables (RowArray tables)) \<and>
           (tables = [] \<longrightarrow> data r = Some (Tables (RowArray []))))) \<and>
   (mysql_createConnection drv (connect_options host user password database port) = Inl e \<longrightarrow>
      (\<exists>r. fst (run (getTables drv host user password database port)) = Inr r \<and>
           success r = False \<and> data r = None)) \<and>
   sublist ''ORDER BY table_name'' getTables_sql"
proof (intro conjI impI)
  assume h: "mysql_createConnection drv (connect_options host user password database port) = Inr c \<and>
    connection_execute drv c getTables_sql (Some [JString database]) = Inr (RowArray tables, meta)"
  then have "fst (run (getTables drv host user password database port))
               = Inr (tables_result database (RowArray tables) meta)"
    by (simp add: getTables_protocol run_protocol protocol_rows)
  moreover have "snd (run (getTables drv host user password database port)) =
      [Connect (connect_options host user password database port),
       Execute c getTables_sql (Some [JString database]), End c]"
    using h by (simp add: getTables_protocol run_protocol)
  ultimately show "\<exists>r. run (getTables drv host user password database port) =
              (Inr r, [Connect (connect_options host user password database port),
                       Execute c getTables_sql (Some [JString database]), End c]) \<and>
           success r = True \<and> data r = Some (Tables (RowArray tables)) \<and>
           (tables = [] \<longrightarrow> data r = Some (Tables (RowArray [])))"
    by (simp add: tables_result_def prod_eq_iff)
next
  assume "mysql_createConnection drv (connect_options host user password database port) = Inl e"
  then have "driver_error drv (connect_options host user password database port) getTables_sql
               (Some [JString database]) = Some (connect_failure e)"
    by (simp add: driver_error_def)
  then show "\<exists>r. fst (run (getTables drv host user password database port)) = Inr r \<and>
           success r = False \<and> data r = None"
    by (simp add: getTables_protocol protocol_run_caught caught_fields)
next
  show "sublist ''ORDER BY table_name'' getTables_sql"
    by (rule order_by_table_name)
qed

theorem getTables_success_returns_rows_witness:
  "mysql_createConnection sample_driver (connect_options ''db'' ''root'' ''pw'' ''empty'' None) = Inr 7 \<and>
   connection_execute sample_driver 7 getTables_sql (Some [JString ''empty'']) = Inr (RowArray [], ()) \<and>
   (\<exists>r. fst (run (getTables sample_driver ''db'' ''root'' ''pw'' ''empty'' None)) = Inr r \<and>
        success r = True \<and> data r = Some (Tables (RowArray []))) \<and>
   mysql_createConnection sample_driver (connect_options ''elsewhere'' ''root'' ''pw'' ''empty'' None)
     = Inl (Error ''ECONNREFUSED'') \<and>
   (\<exists>r. fst (run (getTables sample_driver ''elsewhere'' ''root'' ''pw'' ''empty'' None)) = Inr r \<and>
        success r = False \<and> data r = None)"
proof -
  have a: "mysql_createConnection sample_driver (connect_options ''db'' ''root'' ''pw'' ''empty'' None) = Inr 7"
    by (simp add: sample_driver_def connect_options_def)
  have b: "connection_execute sample_driver 7 getTables_sql (Some [JString ''empty'']) = Inr (RowArray [], ())"
    by (simp add: sample_driver_def)
  have c: "mysql_createConnection sample_driver (connect_options ''elsewhere'' ''root'' ''pw'' ''empty'' None)
             = Inl (Error ''ECONNREFUSED'')"
    by (simp add: sample_driver_def connect_options_def)
  show ?thesis
    using a b c
      getTables_success_returns_rows [of sample_driver "''db''" "''root''" "''pw''" "''empty''" None 7
        "[]" "()" "Error ''ECONNREFUSED''"]
      getTables_success_returns_rows [of sample_driver "''elsewhere''" "''root''" "''pw''" "''empty''" None 7
        "[]" "()" "Error ''ECONNREFUSED''"]
    by auto
qed

lemma caught_envelope: "intro \<noteq> [] \<Longrightarrow> envelope_ok (caught intro e)"
  by (simp add: envelope_ok_def caught_def)

lemma protocol_envelope:
  assumes "intro \<noteq> []" and "\<And>rs meta. envelope_ok (on_rows rs meta)"
  shows "\<exists>r. fst (run (protocol drv opts sql params intro on_rows)) = Inr r \<and> envelope_ok r"
  using assms
  by (simp add: run_protocol protocol_def caught_envelope split: sum.splits prod.splits)

text \<open>
  C6: every result returned by one of the four functions satisfies the envelope invariant:
  exactly one of success and (failure with a non-empty message) holds, and a failure has no
  data.
\<close>

theorem results_satisfy_envelope_invariant:
  "(\<exists>r. fst (run (testConnection drv host user password database port)) = Inr r \<and> envelope_ok r) \<and>
   (\<exists>r. fst (run (getTables drv host user password database port)) = Inr r \<and> envelope_ok r) \<and>
   (\<exists>r. fst (run (getTableColumns drv host user password database tableName port)) = Inr r
        \<and> envelope_ok r) \<and>
   (\<exists>r. fst (run (executeQuery drv host user password database query params port)) = Inr r
        \<and> envelope_ok r)"
  unfolding database_functions_protocol
  by (intro conjI protocol_envelope)
     (simp_all add: envelope_ok_def test_result_def tables_result_def columns_result_def
        query_result_def)

theorem results_satisfy_envelope_invariant_witness:
  "\<exists>r. fst (run (getTableColumns sample_driver ''db'' ''root'' ''pw'' ''shop'' ''users'' None)) = Inr r \<and>
       r = \<lparr>success = False, data = None, error = None,
            message = ''Table users does not exist or has no columns in database shop''\<rparr> \<and>
       envelope_ok r \<and> success r = False \<and> message r \<noteq> [] \<and> data r = None"
proof -
  have "fst (run (getTableColumns sample_driver ''db'' ''root'' ''pw'' ''shop'' ''users'' None)) =
          Inr \<lparr>success = False, data = None, error = None,
               message = ''Table users does not exist or has no columns in database shop''\<rparr>"
    by (simp add: getTableColumns_protocol run_protocol protocol_def sample_driver_def
          connect_options_def columns_result_def length_positive_def)
  then show ?thesis
    using results_satisfy_envelope_invariant [of sample_driver "''db''" "''root''" "''pw''" "''shop''"
        None "''users''" "''q''" None]
    by auto
qed

lemma protocol_connects:
  "filter is_connect (snd (run (protocol drv opts sql params intro on_rows))) = [Connect opts]"
  by (simp add: run_protocol split: sum.splits)

lemma falsy_port_options:
  assumes "port = None \<or> (port = Some n \<and> \<not> truthy_number n)"
  shows "connect_options host user password database port =
           \<lparr>opt_host = host, opt_user = user, opt_password = password, opt_database = database,
            opt_port = Fin 3306\<rparr>"
  using assms by (auto simp add: connect_options_def port_or_default_def)

text \<open>
  C10: \<^verbatim>\<open>createConnection\<close>, and with it each of the four functions, hands port 3306 to the
  driver when the port is omitted and also when the supplied port is falsy (zero or
  not-a-number): the only open the call makes carries port 3306, so an explicit port of 0
  never reaches the driver.
\<close>

theorem falsy_port_replaced_by_default:
  assumes "port = None \<or> (port = Some n \<and> \<not> truthy_number n)"
  shows
    "snd (run (createConnection drv
         \<lparr>cfg_host = host, cfg_user = user, cfg_password = password, cfg_database = database,
          cfg_port = port\<rparr>)) =
       [Connect \<lparr>opt_host = host, opt_user = user, opt_password = password,
                 opt_database = database, opt_port = Fin 3306\<rparr>] \<and>
     filter is_connect (snd (run (testConnection drv host user password database port))) =
       [Connect \<lparr>opt_host = host, opt_user = user, opt_password = password,
                 opt_database = database, opt_port = Fin 3306\<rparr>] \<and>
     filter is_connect (snd (run (getTables drv host user password database port))) =
       [Connect \<lparr>opt_host = host, opt_user = user, opt_password = password,
                 opt_database = database, opt_port = Fin 3306\<rparr>] \<and>
     filter is_connect (snd (run (getTableColumns drv host user password database tableName port))) =
       [Connect \<lparr>opt_host = host, opt_user = user, opt_password = password,
                 opt_database = database, opt_port = Fin 3306\<rparr>] \<and>
     filter is_connect (snd (run (executeQuery drv host user password database query params port))) =
       [Connect \<lparr>opt_host = host, opt_user = user, opt_password = password,
                 opt_database = database, opt_port = Fin 3306\<rparr>]"
proof -
  have "snd (run (createConnection drv
         \<lparr>cfg_host = host, cfg_user = user, cfg_password = password, cfg_database = database,
          cfg_port = port\<rparr>)) = [Connect (connect_options host user password database port)]"
    by (simp add: run_def async_defs connect_options_def split: sum.splits prod.splits)
  then show ?thesis
    by (simp add: database_functions_protocol protocol_connects falsy_port_options [OF assms])
qed

theorem falsy_port_replaced_by_default_witness:
  "\<not> truthy_number (Fin 0) \<and>
   snd (run (getTables sample_driver ''db'' ''root'' ''pw'' ''shop'' (Some (Fin 0)))) =
     [Connect \<lparr>opt_host = ''db'', opt_user = ''root'', opt_password = ''pw'',
               opt_database = ''shop'', opt_port = Fin 3306\<rparr>,
      Execute 7 getTables_sql (Some [JString ''shop'']), End 7] \<and>
   filter is_connect (snd (run (getTables sample_driver ''db'' ''root'' ''pw'' ''shop'' (Some (Fin 0))))) =
     [Connect \<lparr>opt_host = ''db'', opt_user = ''root'', opt_password = ''pw'',
               opt_database = ''shop'', opt_port = Fin 3306\<rparr>] \<and>
   filter is_connect (snd (run (getTables sample_driver ''db'' ''root'' ''pw'' ''shop'' (Some NaN)))) =
     [Connect \<lparr>opt_host = ''db'', opt_user = ''root'', opt_password = ''pw'',
               opt_database = ''shop'', opt_port = Fin 3306\<rparr>] \<and>
   filter is_connect (snd (run (getTables sample_driver ''db'' ''root'' ''pw'' ''shop'' None))) =
     [Connect \<lparr>opt_host = ''db'', opt_user = ''root'', opt_password = ''pw'',
               opt_database = ''shop'', opt_port = Fin 3306\<rparr>]"
proof -
  have z: "Some (Fin 0) = None \<or> (Some (Fin 0) = Some (Fin 0) \<and> \<not> truthy_number (Fin 0))"
    by simp
  have n: "Some NaN = None \<or> (Some NaN = Some NaN \<and> \<not> truthy_number NaN)"
    by simp
  have u: "(None :: number option) = None \<or> (None = Some NaN \<and> \<not> truthy_number NaN)"
    by simp
  have t: "snd (run (getTables sample_driver ''db'' ''root'' ''pw'' ''shop'' (Some (Fin 0)))) =
     [Connect \<lparr>opt_host = ''db'', opt_user = ''root'', opt_password = ''pw'',
               opt_database = ''shop'', opt_port = Fin 3306\<rparr>,
      Execute 7 getTables_sql (Some [JString ''shop'']), End 7]"
    by (simp add: getTables_protocol run_protocol sample_driver_def connect_options_def
          port_or_default_def)
  show ?thesis
    using t falsy_port_replaced_by_default [OF z, of sample_driver "''db''" "''root''" "''pw''" "''shop''"]
      falsy_port_replaced_by_default [OF n, of sample_driver "''db''" "''root''" "''pw''" "''shop''"]
      falsy_port_replaced_by_default [OF u, of sample_driver "''db''" "''root''" "''pw''" "''shop''"]
    by simp
qed

section \<open>Properties of the dispatcher\<close>

text \<open>Behind a guard, the typed views read exactly what the arguments hold.\<close>

lemma string_view: "typeof v = ''string'' \<Longrightarrow> v = JString (as_string v)"
  by (cases v) simp_all

lemma number_view:
  "v = JUndefined \<or> typeof v = ''number'' \<Longrightarrow>
     (v = JUndefined \<and> as_number v = None) \<or> (\<exists>n. v = JNumber n \<and> as_number v = Some n)"
  by (cases v) simp_all

lemma array_view:
  "v = JUndefined \<or> isArray v \<Longrightarrow>
     (v = JUndefined \<and> as_array v = None) \<or> (\<exists>xs. v = JArray xs \<and> as_array v = Some xs)"
  by (cases v) simp_all

lemma run_resolve: "run (resolve v) = (Inr v, [])"
  by (simp add: run_def resolve_def)

lemma not_object_response:
  assumes "\<not> (truthy args \<and> typeof args = ''object'')"
  shows "run (callTool drv rt name args) =
           (Inr (error_response ''Error: Missing or invalid arguments''), [])"
proof -
  have c: "(\<not> truthy args \<or> typeof args \<noteq> ''object'') = True"
    using assms by blast
  show ?thesis
    unfolding callTool_def by (simp only: c if_True run_resolve)
qed

lemma run_caught_throw:
  "run (try_catch (await (throw e) k) (\<lambda>error. resolve (h error))) = (Inr (h e), [])"
  by (simp add: run_def throw_def await_def try_catch_def resolve_def)

lemma callTool_get_table_columns:
  assumes "truthy args" and "typeof args = ''object''"
  shows "callTool drv rt ''get_table_columns'' args =
     try_catch
       (await
          (if \<not> isGetTableColumnsArgs args then
             throw (Error ''Invalid arguments for get_table_columns. Required: host, user, password, database, tableName'')
           else
             getTableColumns drv (as_string (get args ''host'')) (as_string (get args ''user''))
               (as_string (get args ''password'')) (as_string (get args ''database''))
               (as_string (get args ''tableName'')) (as_number (get args ''port'')))
          (\<lambda>result.
             await (sync (JSON_stringify rt result)) (\<lambda>text. resolve (text_response text))))
       (\<lambda>error. resolve (error_response (''Error: '' @ message_or error ''Unknown error'')))"
  unfolding callTool_def using assms by simp

lemma callTool_get_tables:
  assumes "truthy args" and "typeof args = ''object''"
  shows "callTool drv rt ''get_tables'' args =
     try_catch
       (await
          (if \<not> isDatabaseConnectionArgs args then
             throw (Error ''Invalid arguments for get_tables. Required: host, user, password, database'')
           else
             getTables drv (as_string (get args ''host'')) (as_string (get args ''user''))
               (as_string (get args ''password'')) (as_string (get args ''database''))
               (as_number (get args ''port'')))
          (\<lambda>result.
             await (sync (JSON_stringify rt result)) (\<lambda>text. resolve (text_response text))))
       (\<lambda>error. resolve (error_response (''Error: '' @ message_or error ''Unknown error'')))"
  unfolding callTool_def using assms by simp

lemma callTool_execute_query:
  assumes "truthy args" and "typeof args = ''object''"
  shows "callTool drv rt ''execute_query'' args =
     try_catch
       (await
          (if \<not> isExecuteQueryArgs args then
             throw (Error ''Invalid arguments for execute_query. Required: host, user, password, database, query'')
           else
             executeQuery drv (as_string (get args ''host'')) (as_string (get args ''user''))
               (as_string (get args ''password'')) (as_string (get args ''database''))
               (as_string (get args ''query'')) (as_array (get args ''params''))
               (as_number (get args ''port'')))
          (\<lambda>result.
             await (sync (JSON_stringify rt result)) (\<lambda>text. resolve (text_response text))))
       (\<lambda>error. resolve (error_response (''Error: '' @ message_or error ''Unknown error'')))"
  unfolding callTool_def using assms by simp

lemma callTool_test_connection:
  assumes "truthy args" and "typeof args = ''object''"
  shows "callTool drv rt ''test_connection'' args =
     try_catch
       (await
          (if \<not> isDatabaseConnectionArgs args then
             throw (Error ''Invalid arguments for test_connection. Required: host, user, password, database'')
           else
             testConnection drv (as_string (get args ''host'')) (as_string (get args ''user''))
               (as_string (get args ''password'')) (as_string (get args ''database''))
               (as_number (get args ''port'')))
          (\<lambda>result.
             await (sync (JSON_stringify rt result)) (\<lambda>text. resolve (text_response text))))
       (\<lambda>error. resolve (error_response (''Error: '' @ message_or error ''Unknown error'')))"
  unfolding callTool_def using assms by simp

lemma callTool_unknown:
  assumes "truthy args" and "typeof args = ''object''" and "name \<notin> set tool_names"
  shows "callTool drv rt name args =
     try_catch
       (await (throw (Error (''Unknown tool: '' @ name)))
          (\<lambda>result.
             await (sync (JSON_stringify rt result)) (\<lambda>text. resolve (text_response text))))
       (\<lambda>error. resolve (error_response (''Error: '' @ message_or error ''Unknown error'')))"
proof -
  have n: "name \<noteq> ''get_table_columns''" "name \<noteq> ''get_tables''"
    "name \<noteq> ''execute_query''" "name \<noteq> ''test_connection''"
    using assms(3) by (simp_all add: tool_names_def)
  show ?thesis
    unfolding callTool_def using assms(1,2) by (simp add: n)
qed


lemma tool_name_cases:
  assumes "name \<in> set tool_names"
  obtains "name = ''get_table_columns''" | "name = ''get_tables''"
    | "name = ''execute_query''" | "name = ''test_connection''"
  using assms by (auto simp add: tool_names_def)

lemma guard_fails_response:
  assumes "truthy args" and "typeof args = ''object''"
    and "name \<in> set tool_names" and "\<not> guard_of name args"
  shows "run (callTool drv rt name args) =
           (Inr (error_response (''Error: Invalid arguments for '' @ name @ ''. Required: ''
                                  @ required_fields name)), [])"
  using assms(3)
proof (cases rule: tool_name_cases)
  case 1
  then have "\<not> isGetTableColumnsArgs args"
    using assms(4) by (simp add: guard_of_def)
  then show ?thesis
    by (simp add: 1 callTool_get_table_columns [OF assms(1,2)] run_caught_throw required_fields_def)
next
  case 2
  then have "\<not> isDatabaseConnectionArgs args"
    using assms(4) by (simp add: guard_of_def)
  then show ?thesis
    by (simp add: 2 callTool_get_tables [OF assms(1,2)] run_caught_throw required_fields_def)
next
  case 3
  then have "\<not> isExecuteQueryArgs args"
    using assms(4) by (simp add: guard_of_def)
  then show ?thesis
    by (simp add: 3 callTool_execute_query [OF assms(1,2)] run_caught_throw required_fields_def)
next
  case 4
  then have "\<not> isDatabaseConnectionArgs args"
    using assms(4) by (simp add: guard_of_def)
  then show ?thesis
    by (simp add: 4 callTool_test_connection [OF assms(1,2)] run_caught_throw required_fields_def)
qed

lemma unknown_tool_response:
  assumes "truthy args" and "typeof args = ''object''" and "name \<notin> set tool_names"
  shows "run (callTool drv rt name args) =
           (Inr (error_response (''Error: Unknown tool: '' @ name)), [])"
  by (simp add: callTool_unknown [OF assms] run_caught_throw)

lemma error_response_fields:
  "isError (error_response t) = Some True"
  "content (error_response t) = [\<lparr>item_type = ''text'', item_text = t\<rparr>]"
  by (simp_all add: error_response_def)

lemma database_functions_call_driver:
  "snd (run (testConnection drv host user password database port)) \<noteq> []"
  "snd (run (getTables drv host user password database port)) \<noteq> []"
  "snd (run (getTableColumns drv host user password database tableName port)) \<noteq> []"
  "snd (run (executeQuery drv host user password database query params port)) \<noteq> []"
  by (simp_all add: database_functions_protocol run_protocol split: sum.splits)

text \<open>
  C2: when a call names one of the four tools and its arguments fail that tool's type
  guard, the dispatcher answers with an error-flagged response and makes no driver call at
  all, so no database function ran (by \<open>database_functions_call_driver\<close> each of them
  calls the driver). When the
  arguments are an object, the text names the tool and its required fields:
  \<^verbatim>\<open>Error: Invalid arguments for <name>. Required: <fields>\<close>.
\<close>

theorem invalid_arguments_never_reach_database:
  assumes "name \<in> set tool_names" and "\<not> guard_of name args"
  shows "\<exists>resp. run (callTool drv rt name args) = (Inr resp, []) \<and>
           isError resp = Some True \<and>
           (truthy args \<and> typeof args = ''object'' \<longrightarrow>
              content resp =
                [\<lparr>item_type = ''text'',
                  item_text = ''Error: Invalid arguments for '' @ name @ ''. Required: ''
                              @ required_fields name\<rparr>])"
proof (cases "truthy args \<and> typeof args = ''object''")
  case True
  then show ?thesis
    using guard_fails_response [OF _ _ assms, of drv rt]
    by (simp add: error_response_fields)
next
  case False
  then show ?thesis
    by (simp add: not_object_response error_response_fields)
qed

theorem invalid_arguments_never_reach_database_witness:
  "''get_table_columns'' \<in> set tool_names \<and>
   \<not> guard_of ''get_table_columns'' sample_args \<and>
   truthy sample_args \<and> typeof sample_args = ''object'' \<and>
   run (callTool sample_driver sample_runtime ''get_table_columns'' sample_args) =
     (Inr \<lparr>content =
            [\<lparr>item_type = ''text'',
              item_text = ''Error: Invalid arguments for get_table_columns. Required: host, user, password, database, tableName''\<rparr>],
           isError = Some True\<rparr>, [])"
proof -
  have a: "''get_table_columns'' \<in> set tool_names"
    by (simp add: tool_names_def)
  have b: "\<not> guard_of ''get_table_columns'' sample_args"
    by (simp add: guard_of_def isGetTableColumnsArgs_def sample_args_def)
  have c: "truthy sample_args \<and> typeof sample_args = ''object''"
    by (simp add: sample_args_def)
  show ?thesis
    using a b c invalid_arguments_never_reach_database [OF a b, of sample_driver sample_runtime]
    by (auto simp add: required_fields_def)
qed

text \<open>
  C7, as stated, fails: a call that names an unknown tool and carries no arguments is
  answered by the check on the arguments, whose text does not include the tool name.
\<close>

theorem unknown_tool_without_arguments_counterexample:
  "''list_databases'' \<notin> set tool_names \<and>
   run (callTool sample_driver sample_runtime ''list_databases'' JUndefined) =
     (Inr \<lparr>content = [\<lparr>item_type = ''text'', item_text = ''Error: Missing or invalid arguments''\<rparr>],
           isError = Some True\<rparr>, []) \<and>
   \<not> sublist ''list_databases'' ''Error: Missing or invalid arguments''"
proof -
  have "\<not> sublist ''list_databases'' ''Error: Missing or invalid arguments''"
    by code_simp
  then show ?thesis
    by (simp add: tool_names_def not_object_response error_response_def)
qed

text \<open>
  C7, amended: a call whose name is not one of the four tool names is answered with an
  error-flagged response and no driver call; the handler returns, nothing ends the process.
  When the arguments are an object, the text is \<^verbatim>\<open>Error: Unknown tool: <name>\<close>, which
  includes the name; otherwise it is the fixed text \<^verbatim>\<open>Error: Missing or invalid arguments\<close>.
\<close>

theorem unknown_tool_is_reported:
  assumes "name \<notin> set tool_names"
  shows "run (callTool drv rt name args) =
           (Inr \<lparr>content =
                  [\<lparr>item_type = ''text'',
                    item_text =
                      (if truthy args \<and> typeof args = ''object''
                       then ''Error: Unknown tool: '' @ name
                       else ''Error: Missing or invalid arguments'')\<rparr>],
                 isError = Some True\<rparr>, []) \<and>
         sublist name (''Error: Unknown tool: '' @ name)"
proof -
  have "sublist name (''Error: Unknown tool: '' @ name @ [])"
    by (rule sublist_appendI)
  then have s: "sublist name (''Error: Unknown tool: '' @ name)"
    by simp
  show ?thesis
  proof (cases "truthy args \<and> typeof args = ''object''")
    case True
    then show ?thesis
      using s unknown_tool_response [OF _ _ assms, of args drv rt]
      by (simp add: error_response_def)
  next
    case False
    then show ?thesis
      using s by (simp add: not_object_response error_response_def)
  qed
qed

theorem unknown_tool_is_reported_witness:
  "''list_databases'' \<notin> set tool_names \<and>
   run (callTool sample_driver sample_runtime ''list_databases'' (JObject [])) =
     (Inr \<lparr>content = [\<lparr>item_type = ''text'', item_text = ''Error: Unknown tool: list_databases''\<rparr>],
           isError = Some True\<rparr>, []) \<and>
   run (callTool sample_driver sample_runtime ''list_databases'' JNull) =
     (Inr \<lparr>content = [\<lparr>item_type = ''text'', item_text = ''Error: Missing or invalid arguments''\<rparr>],
           isError = Some True\<rparr>, []) \<and>
   sublist ''list_databases'' ''Error: Unknown tool: list_databases''"
proof -
  have a: "''list_databases'' \<notin> set tool_names"
    by (simp add: tool_names_def)
  show ?thesis
    using a unknown_tool_is_reported [OF a, of sample_driver sample_runtime "JObject []"]
      unknown_tool_is_reported [OF a, of sample_driver sample_runtime JNull]
    by simp
qed

lemma database_functions_resolve:
  "\<exists>r evs. run (testConnection drv host user password database port) = (Inr r, evs)"
  "\<exists>r evs. run (getTables drv host user password database port) = (Inr r, evs)"
  "\<exists>r evs. run (getTableColumns drv host user password database tableName port) = (Inr r, evs)"
  "\<exists>r evs. run (executeQuery drv host user password database query params port) = (Inr r, evs)"
  by (simp_all add: database_functions_protocol run_def protocol_def split: sum.splits)

lemma protocol_returns_envelope:
  assumes "intro \<noteq> []" and "\<And>rs meta. envelope_ok (on_rows rs meta)"
    and "fst (run (protocol drv opts sql params intro on_rows)) = Inr r"
  shows "envelope_ok r"
  using protocol_envelope [where intro = intro and on_rows = on_rows and drv = drv
      and opts = opts and sql = sql and params = params, OF assms(1,2)] assms(3)
  by auto

lemma database_results_envelope:
  "fst (run (testConnection drv host user password database port)) = Inr r \<Longrightarrow> envelope_ok r"
  "fst (run (getTables drv host user password database port)) = Inr r \<Longrightarrow> envelope_ok r"
  "fst (run (getTableColumns drv host user password database tableName port)) = Inr r \<Longrightarrow> envelope_ok r"
  "fst (run (executeQuery drv host user password database query params port)) = Inr r \<Longrightarrow> envelope_ok r"
  unfolding database_functions_protocol
  by (erule protocol_returns_envelope [rotated 2];
      simp add: envelope_ok_def test_result_def tables_result_def columns_result_def
        query_result_def)+

lemma guard_is_object:
  "isGetTableColumnsArgs args \<Longrightarrow> truthy args \<and> typeof args = ''object''"
  "isDatabaseConnectionArgs args \<Longrightarrow> truthy args \<and> typeof args = ''object''"
  "isExecuteQueryArgs args \<Longrightarrow> truthy args \<and> typeof args = ''object''"
  by (cases args; simp add: isGetTableColumnsArgs_def isDatabaseConnectionArgs_def isExecuteQueryArgs_def)+

text \<open>The answer to a result: its serialisation as plain text, or the error the serialisation threw.\<close>

lemma run_await_serialise:
  assumes "run m = (Inr r, evs)"
  shows "run (try_catch
                (await m (\<lambda>result.
                   await (sync (JSON_stringify rt result)) (\<lambda>text. resolve (text_response text))))
                (\<lambda>error. resolve (g error))) =
           (Inr (case JSON_stringify rt r of Inr t \<Rightarrow> text_response t | Inl e \<Rightarrow> g e), evs)"
  using assms
  by (auto simp add: run_def await_def try_catch_def resolve_def sync_def
        split: prod.splits sum.splits)

lemma JSON_stringify_failure:
  assumes "data r = None"
  shows "\<exists>t. JSON_stringify rt r = Inr t"
  using assms by (simp add: JSON_stringify_def and_then_def)

lemma JSON_stringify_throws:
  assumes "JSON_stringify rt r = Inl e"
  shows "data r \<noteq> None"
  using assms JSON_stringify_failure [of r rt] by auto

lemma text_response_fields:
  "isError (text_response t) = None"
  "content (text_response t) = [\<lparr>item_type = ''text'', item_text = t\<rparr>]"
  by (simp_all add: text_response_def)

lemma valid_get_table_columns:
  assumes "isGetTableColumnsArgs args"
    and "run (getTableColumns drv (as_string (get args ''host'')) (as_string (get args ''user''))
               (as_string (get args ''password'')) (as_string (get args ''database''))
               (as_string (get args ''tableName'')) (as_number (get args ''port''))) = (Inr r, evs)"
  shows "run (callTool drv rt ''get_table_columns'' args) =
           (Inr (case JSON_stringify rt r of
                   Inr t \<Rightarrow> text_response t
                 | Inl e \<Rightarrow> error_response (''Error: '' @ message_or e ''Unknown error'')), evs)"
proof -
  have o: "truthy args" "typeof args = ''object''"
    using guard_is_object(1) [OF assms(1)] by simp_all
  show ?thesis
    by (simp add: callTool_get_table_columns [OF o] assms(1) run_await_serialise [OF assms(2)]
          cong: sum.case_cong)
qed

lemma valid_get_tables:
  assumes "isDatabaseConnectionArgs args"
    and "run (getTables drv (as_string (get args ''host'')) (as_string (get args ''user''))
               (as_string (get args ''password'')) (as_string (get args ''database''))
               (as_number (get args ''port''))) = (Inr r, evs)"
  shows "run (callTool drv rt ''get_tables'' args) =
           (Inr (case JSON_stringify rt r of
                   Inr t \<Rightarrow> text_response t
                 | Inl e \<Rightarrow> error_response (''Error: '' @ message_or e ''Unknown error'')), evs)"
proof -
  have o: "truthy args" "typeof args = ''object''"
    using guard_is_object(2) [OF assms(1)] by simp_all
  show ?thesis
    by (simp add: callTool_get_tables [OF o] assms(1) run_await_serialise [OF assms(2)]
          cong: sum.case_cong)
qed

lemma valid_execute_query:
  assumes "isExecuteQueryArgs args"
    and "run (executeQuery drv (as_string (get args ''host'')) (as_string (get args ''user''))
               (as_string (get args ''password'')) (as_string (get args ''database''))
               (as_string (get args ''query'')) (as_array (get args ''params''))
               (as_number (get args ''port''))) = (Inr r, evs)"
  shows "run (callTool drv rt ''execute_query'' args) =
           (Inr (case JSON_stringify rt r of
                   Inr t \<Rightarrow> text_response t
                 | Inl e \<Rightarrow> error_response (''Error: '' @ message_or e ''Unknown error'')), evs)"
proof -
  have o: "truthy args" "typeof args = ''object''"
    using guard_is_object(3) [OF assms(1)] by simp_all
  show ?thesis
    by (simp add: callTool_execute_query [OF o] assms(1) run_await_serialise [OF assms(2)]
          cong: sum.case_cong)
qed

lemma valid_test_connection:
  assumes "isDatabaseConnectionArgs args"
    and "run (testConnection drv (as_string (get args ''host'')) (as_string (get args ''user''))
               (as_string (get args ''password'')) (as_string (get args ''database''))
               (as_number (get args ''port''))) = (Inr r, evs)"
  shows "run (callTool drv rt ''test_connection'' args) =
           (Inr (case JSON_stringify rt r of
                   Inr t \<Rightarrow> text_response t
                 | Inl e \<Rightarrow> error_response (''Error: '' @ message_or e ''Unknown error'')), evs)"
proof -
  have o: "truthy args" "typeof args = ''object''"
    using guard_is_object(2) [OF assms(1)] by simp_all
  show ?thesis
    by (simp add: callTool_test_connection [OF o] assms(1) run_await_serialise [OF assms(2)]
          cong: sum.case_cong)
qed

lemma resolves_with_envelope:
  assumes "\<exists>r evs. run m = (Inr r, evs)" and "\<And>r. fst (run m) = Inr r \<Longrightarrow> envelope_ok r"
  shows "\<exists>r evs. run m = (Inr r, evs) \<and> envelope_ok r"
  using assms by fastforce

lemma invoked_resolves:
  "\<exists>r evs. run (invoked drv name args) = (Inr r, evs) \<and> envelope_ok r"
proof -
  note a = resolves_with_envelope [OF database_functions_resolve(1) database_results_envelope(1)]
    resolves_with_envelope [OF database_functions_resolve(2) database_results_envelope(2)]
    resolves_with_envelope [OF database_functions_resolve(3) database_results_envelope(3)]
    resolves_with_envelope [OF database_functions_resolve(4) database_results_envelope(4)]
  consider "name = ''get_table_columns''"
    | "name \<noteq> ''get_table_columns''" "name = ''get_tables''"
    | "name \<noteq> ''get_table_columns''" "name \<noteq> ''get_tables''" "name = ''execute_query''"
    | "name \<noteq> ''get_table_columns''" "name \<noteq> ''get_tables''" "name \<noteq> ''execute_query''"
    by blast
  then show ?thesis
  proof cases
    case 1
    then have "invoked drv name args =
        getTableColumns drv (as_string (get args ''host'')) (as_string (get args ''user''))
          (as_string (get args ''password'')) (as_string (get args ''database''))
          (as_string (get args ''tableName'')) (as_number (get args ''port''))"
      by (simp add: invoked_def)
    then show ?thesis
      by (simp only: a(3))
  next
    case 2
    then have "invoked drv name args =
        getTables drv (as_string (get args ''host'')) (as_string (get args ''user''))
          (as_string (get args ''password'')) (as_string (get args ''database''))
          (as_number (get args ''port''))"
      by (simp add: invoked_def)
    then show ?thesis
      by (simp only: a(2))
  next
    case 3
    then have "invoked drv name args =
        executeQuery drv (as_string (get args ''host'')) (as_string (get args ''user''))
          (as_string (get args ''password'')) (as_string (get args ''database''))
          (as_string (get args ''query'')) (as_array (get args ''params''))
          (as_number (get args ''port''))"
      by (simp add: invoked_def)
    then show ?thesis
      by (simp only: a(4))
  next
    case 4
    then have "invoked drv name args =
        testConnection drv (as_string (get args ''host'')) (as_string (get args ''user''))
          (as_string (get args ''password'')) (as_string (get args ''database''))
          (as_number (get args ''port''))"
      by (simp add: invoked_def)
    then show ?thesis
      by (simp only: a(1))
  qed
qed

lemma valid_call_response:
  assumes "name \<in> set tool_names" and "guard_of name args"
    and "run (invoked drv name args) = (Inr r, evs)"
  shows "run (callTool drv rt name args) =
           (Inr (case JSON_stringify rt r of
                   Inr t \<Rightarrow> text_response t
                 | Inl e \<Rightarrow> error_response (''Error: '' @ message_or e ''Unknown error'')), evs)"
  using assms(1)
proof (cases rule: tool_name_cases)
  case 1
  then show ?thesis
    using assms(2,3) valid_get_table_columns [of args drv r evs rt]
    by (simp add: guard_of_def invoked_def cong: sum.case_cong)
next
  case 2
  then show ?thesis
    using assms(2,3) valid_get_tables [of args drv r evs rt]
    by (simp add: guard_of_def invoked_def cong: sum.case_cong)
next
  case 3
  then show ?thesis
    using assms(2,3) valid_execute_query [of args drv r evs rt]
    by (simp add: guard_of_def invoked_def cong: sum.case_cong)
next
  case 4
  then show ?thesis
    using assms(2,3) valid_test_connection [of args drv r evs rt]
    by (simp add: guard_of_def invoked_def cong: sum.case_cong)
qed


text \<open>
  C9: when the arguments pass the tool's guard and the database function returns a result
  with \<open>success = False\<close>, the serialisation of that result succeeds and the dispatcher
  answers with it as plain text, without an \<open>isError\<close> flag, after the same driver calls.
  A response carries \<open>isError\<close> only when the arguments are no object, the name is
  unknown, the arguments fail the guard of the tool, or the serialisation of the result
  that the database function returned, a successful one with data, threw during the
  dispatch; the text is then that error.
\<close>

theorem failed_operation_is_plain_text:
  "(isGetTableColumnsArgs args \<and>
    run (getTableColumns drv (as_string (get args ''host'')) (as_string (get args ''user''))
           (as_string (get args ''password'')) (as_string (get args ''database''))
           (as_string (get args ''tableName'')) (as_number (get args ''port''))) = (Inr r, evs) \<and>
    success r = False \<longrightarrow>
      (\<exists>t. JSON_stringify rt r = Inr t \<and>
           run (callTool drv rt ''get_table_columns'' args) =
             (Inr \<lparr>content = [\<lparr>item_type = ''text'', item_text = t\<rparr>], isError = None\<rparr>, evs))) \<and>
   (isDatabaseConnectionArgs args \<and>
    run (getTables drv (as_string (get args ''host'')) (as_string (get args ''user''))
           (as_string (get args ''password'')) (as_string (get args ''database''))
           (as_number (get args ''port''))) = (Inr r, evs) \<and>
    success r = False \<longrightarrow>
      (\<exists>t. JSON_stringify rt r = Inr t \<and>
           run (callTool drv rt ''get_tables'' args) =
             (Inr \<lparr>content = [\<lparr>item_type = ''text'', item_text = t\<rparr>], isError = None\<rparr>, evs))) \<and>
   (isExecuteQueryArgs args \<and>
    run (executeQuery drv (as_string (get args ''host'')) (as_string (get args ''user''))
           (as_string (get args ''password'')) (as_string (get args ''database''))
           (as_string (get args ''query'')) (as_array (get args ''params''))
           (as_number (get args ''port''))) = (Inr r, evs) \<and>
    success r = False \<longrightarrow>
      (\<exists>t. JSON_stringify rt r = Inr t \<and>
           run (callTool drv rt ''execute_query'' args) =
             (Inr \<lparr>content = [\<lparr>item_type = ''text'', item_text = t\<rparr>], isError = None\<rparr>, evs))) \<and>
   (isDatabaseConnectionArgs args \<and>
    run (testConnection drv (as_string (get args ''host'')) (as_string (get args ''user''))
           (as_string (get args ''password'')) (as_string (get args ''database''))
           (as_number (get args ''port''))) = (Inr r, evs) \<and>
    success r = False \<longrightarrow>
      (\<exists>t. JSON_stringify rt r = Inr t \<and>
           run (callTool drv rt ''test_connection'' args) =
             (Inr \<lparr>content = [\<lparr>item_type = ''text'', item_text = t\<rparr>], isError = None\<rparr>, evs))) \<and>
   (run (callTool drv rt name args) = (Inr resp, evs') \<and> isError resp \<noteq> None \<longrightarrow>
      \<not> (truthy args \<and> typeof args = ''object'') \<or> name \<notin> set tool_names \<or>
      \<not> guard_of name args \<or>
      (\<exists>r' e. fst (run (invoked drv name args)) = Inr r' \<and> success r' = True \<and>
              data r' \<noteq> None \<and> JSON_stringify rt r' = Inl e \<and>
              resp = error_response (''Error: '' @ message_or e ''Unknown error'')))"
proof (intro conjI impI)
  assume h: "isGetTableColumnsArgs args \<and>
    run (getTableColumns drv (as_string (get args ''host'')) (as_string (get args ''user''))
           (as_string (get args ''password'')) (as_string (get args ''database''))
           (as_string (get args ''tableName'')) (as_number (get args ''port''))) = (Inr r, evs) \<and>
    success r = False"
  then have "envelope_ok r"
    using database_results_envelope(3) by (metis fst_conv)
  then obtain t where "JSON_stringify rt r = Inr t"
    using h JSON_stringify_failure [of r rt] by (auto simp add: envelope_ok_def)
  then show "\<exists>t. JSON_stringify rt r = Inr t \<and>
           run (callTool drv rt ''get_table_columns'' args) =
             (Inr \<lparr>content = [\<lparr>item_type = ''text'', item_text = t\<rparr>], isError = None\<rparr>, evs)"
    using h valid_get_table_columns [of args drv r evs rt] by (simp add: text_response_def)
next
  assume h: "isDatabaseConnectionArgs args \<and>
    run (getTables drv (as_string (get args ''host'')) (as_string (get args ''user''))
           (as_string (get args ''password'')) (as_string (get args ''database''))
           (as_number (get args ''port''))) = (Inr r, evs) \<and>
    success r = False"
  then have "envelope_ok r"
    using database_results_envelope(2) by (metis fst_conv)
  then obtain t where "JSON_stringify rt r = Inr t"
    using h JSON_stringify_failure [of r rt] by (auto simp add: envelope_ok_def)
  then show "\<exists>t. JSON_stringify rt r = Inr t \<and>
           run (callTool drv rt ''get_tables'' args) =
             (Inr \<lparr>content = [\<lparr>item_type = ''text'', item_text = t\<rparr>], isError = None\<rparr>, evs)"
    using h valid_get_tables [of args drv r evs rt] by (simp add: text_response_def)
next
  assume h: "isExecuteQueryArgs args \<and>
    run (executeQuery drv (as_string (get args ''host'')) (as_string (get args ''user''))
           (as_string (get args ''password'')) (as_string (get args ''database''))
           (as_string (get args ''query'')) (as_array (get args ''params''))
           (as_number (get args ''port''))) = (Inr r, evs) \<and>
    success r = False"
  then have "envelope_ok r"
    using database_results_envelope(4) by (metis fst_conv)
  then obtain t where "JSON_stringify rt r = Inr t"
    using h JSON_stringify_failure [of r rt] by (auto simp add: envelope_ok_def)
  then show "\<exists>t. JSON_stringify rt r = Inr t \<and>
           run (callTool drv rt ''execute_query'' args) =
             (Inr \<lparr>content = [\<lparr>item_type = ''text'', item_text = t\<rparr>], isError = None\<rparr>, evs)"
    using h valid_execute_query [of args drv r evs rt] by (simp add: text_response_def)
next
  assume h: "isDatabaseConnectionArgs args \<and>
    run (testConnection drv (as_string (get args ''host'')) (as_string (get args ''user''))
           (as_string (get args ''password'')) (as_string (get args ''database''))
           (as_number (get args ''port''))) = (Inr r, evs) \<and>
    success r = False"
  then have "envelope_ok r"
    using database_results_envelope(1) by (metis fst_conv)
  then obtain t where "JSON_stringify rt r = Inr t"
    using h JSON_stringify_failure [of r rt] by (auto simp add: envelope_ok_def)
  then show "\<exists>t. JSON_stringify rt r = Inr t \<and>
           run (callTool drv rt ''test_connection'' args) =
             (Inr \<lparr>content = [\<lparr>item_type = ''text'', item_text = t\<rparr>], isError = None\<rparr>, evs)"
    using h valid_test_connection [of args drv r evs rt] by (simp add: text_response_def)
next
  assume h: "run (callTool drv rt name args) = (Inr resp, evs') \<and> isError resp \<noteq> None"
  show "\<not> (truthy args \<and> typeof args = ''object'') \<or> name \<notin> set tool_names \<or>
      \<not> guard_of name args \<or>
      (\<exists>r' e. fst (run (invoked drv name args)) = Inr r' \<and> success r' = True \<and>
              data r' \<noteq> None \<and> JSON_stringify rt r' = Inl e \<and>
              resp = error_response (''Error: '' @ message_or e ''Unknown error''))"
  proof (cases "name \<in> set tool_names \<and> guard_of name args")
    case False
    then show ?thesis
      by blast
  next
    case True
    obtain r' evs'' where i: "run (invoked drv name args) = (Inr r', evs'')" and v: "envelope_ok r'"
      using invoked_resolves by blast
    have c: "run (callTool drv rt name args) =
           (Inr (case JSON_stringify rt r' of
                   Inr t \<Rightarrow> text_response t
                 | Inl e \<Rightarrow> error_response (''Error: '' @ message_or e ''Unknown error'')), evs'')"
      using True i by (simp add: valid_call_response)
    show ?thesis
    proof (cases "JSON_stringify rt r'")
      case (Inr t)
      then have "resp = text_response t"
        using c h by simp
      then show ?thesis
        using h by (simp add: text_response_def)
    next
      case (Inl e)
      then have "resp = error_response (''Error: '' @ message_or e ''Unknown error'')"
        using c h by simp
      moreover have "data r' \<noteq> None"
        using Inl by (rule JSON_stringify_throws)
      moreover have "success r' = True"
        using v \<open>data r' \<noteq> None\<close> by (auto simp add: envelope_ok_def)
      ultimately show ?thesis
        using i Inl by auto
    qed
  qed
qed

theorem failed_operation_is_plain_text_witness:
  "isDatabaseConnectionArgs
     (JObject [(''host'', JString ''elsewhere''), (''user'', JString ''root''),
               (''password'', JString ''pw''), (''database'', JString ''shop'')]) \<and>
   run (testConnection sample_driver ''elsewhere'' ''root'' ''pw'' ''shop'' None) =
     (Inr \<lparr>success = False, data = None,
           error = Some ''Failed to connect to database: ECONNREFUSED'',
           message = ''Failed to connect to database shop@elsewhere: Failed to connect to database: ECONNREFUSED''\<rparr>,
      [Connect \<lparr>opt_host = ''elsewhere'', opt_user = ''root'', opt_password = ''pw'',
                opt_database = ''shop'', opt_port = Fin 3306\<rparr>]) \<and>
   (\<exists>t. JSON_stringify sample_runtime
          \<lparr>success = False, data = (None :: (string, unit, unit) data option),
           error = Some ''Failed to connect to database: ECONNREFUSED'',
           message = ''Failed to connect to database shop@elsewhere: Failed to connect to database: ECONNREFUSED''\<rparr>
        = Inr t \<and>
        run (callTool sample_driver sample_runtime ''test_connection''
               (JObject [(''host'', JString ''elsewhere''), (''user'', JString ''root''),
                         (''password'', JString ''pw''), (''database'', JString ''shop'')])) =
          (Inr \<lparr>content = [\<lparr>item_type = ''text'', item_text = t\<rparr>], isError = None\<rparr>,
           [Connect \<lparr>opt_host = ''elsewhere'', opt_user = ''root'', opt_password = ''pw'',
                     opt_database = ''shop'', opt_port = Fin 3306\<rparr>])) \<and>
   run (callTool sample_driver bigint_runtime ''execute_query''
          (JObject [(''host'', JString ''db''), (''user'', JString ''root''),
                    (''password'', JString ''pw''), (''database'', JString ''shop''),
                    (''query'', JString ''SELECT 1'')])) =
     (Inr \<lparr>content =
            [\<lparr>item_type = ''text'', item_text = ''Error: Do not know how to serialize a BigInt''\<rparr>],
           isError = Some True\<rparr>,
      [Connect \<lparr>opt_host = ''db'', opt_user = ''root'', opt_password = ''pw'',
                opt_database = ''shop'', opt_port = Fin 3306\<rparr>,
       Execute 7 ''SELECT 1'' None, End 7]) \<and>
   (\<exists>r' e. fst (run (invoked sample_driver ''execute_query''
                       (JObject [(''host'', JString ''db''), (''user'', JString ''root''),
                                 (''password'', JString ''pw''), (''database'', JString ''shop''),
                                 (''query'', JString ''SELECT 1'')]))) = Inr r' \<and>
           success r' = True \<and> JSON_stringify bigint_runtime r' = Inl e)"
proof -
  let ?args = "JObject [(''host'', JString ''elsewhere''), (''user'', JString ''root''),
                    (''password'', JString ''pw''), (''database'', JString ''shop'')]"
  let ?qargs = "JObject [(''host'', JString ''db''), (''user'', JString ''root''),
                    (''password'', JString ''pw''), (''database'', JString ''shop''),
                    (''query'', JString ''SELECT 1'')]"
  let ?r = "\<lparr>success = False, data = (None :: (string, unit, unit) data option),
           error = Some ''Failed to connect to database: ECONNREFUSED'',
           message = ''Failed to connect to database shop@elsewhere: Failed to connect to database: ECONNREFUSED''\<rparr>"
  let ?evs = "[Connect \<lparr>opt_host = ''elsewhere'', opt_user = ''root'', opt_password = ''pw'',
                opt_database = ''shop'', opt_port = Fin 3306\<rparr>] :: nat event list"
  let ?qevs = "[Connect \<lparr>opt_host = ''db'', opt_user = ''root'', opt_password = ''pw'',
                opt_database = ''shop'', opt_port = Fin 3306\<rparr>,
       Execute 7 ''SELECT 1'' None, End 7] :: nat event list"
  let ?qresp = "\<lparr>content =
            [\<lparr>item_type = ''text'', item_text = ''Error: Do not know how to serialize a BigInt''\<rparr>],
           isError = Some True\<rparr>"
  have g: "isDatabaseConnectionArgs ?args"
    by (simp add: isDatabaseConnectionArgs_def)
  have b: "run (testConnection sample_driver ''elsewhere'' ''root'' ''pw'' ''shop'' None) = (Inr ?r, ?evs)"
    by (simp add: testConnection_protocol run_protocol protocol_def sample_driver_def
          connect_options_def port_or_default_def caught_def connect_failure_def)
  have c: "run (testConnection sample_driver (as_string (get ?args ''host'')) (as_string (get ?args ''user''))
           (as_string (get ?args ''password'')) (as_string (get ?args ''database''))
           (as_number (get ?args ''port''))) = (Inr ?r, ?evs)"
    using b by simp
  have q: "run (executeQuery sample_driver ''db'' ''root'' ''pw'' ''shop'' ''SELECT 1'' None None) =
             (Inr (query_result (RowArray [''1'']) ()), ?qevs)"
    by (simp add: executeQuery_protocol run_protocol protocol_def sample_driver_def
          connect_options_def port_or_default_def)
  have qg: "isExecuteQueryArgs ?qargs"
    by (simp add: isExecuteQueryArgs_def)
  have qc: "run (callTool sample_driver bigint_runtime ''execute_query'' ?qargs) = (Inr ?qresp, ?qevs)"
    using valid_execute_query [OF qg, of sample_driver "query_result (RowArray [''1'']) ()" ?qevs
        bigint_runtime] q
    by (simp add: JSON_stringify_def and_then_def bigint_runtime_def query_result_def
          error_response_def)
  have qe: "isError ?qresp \<noteq> None"
    by simp
  have first: "\<exists>t. JSON_stringify sample_runtime ?r = Inr t \<and>
        run (callTool sample_driver sample_runtime ''test_connection'' ?args) =
          (Inr \<lparr>content = [\<lparr>item_type = ''text'', item_text = t\<rparr>], isError = None\<rparr>, ?evs)"
    using failed_operation_is_plain_text [of ?args sample_driver ?r ?evs sample_runtime] g c
    by simp
  have "truthy ?qargs \<and> typeof ?qargs = ''object''" and "''execute_query'' \<in> set tool_names"
    and "guard_of ''execute_query'' ?qargs"
    using qg by (simp_all add: tool_names_def guard_of_def)
  then have last: "\<exists>r' e. fst (run (invoked sample_driver ''execute_query'' ?qargs)) = Inr r' \<and>
           success r' = True \<and> JSON_stringify bigint_runtime r' = Inl e"
    using failed_operation_is_plain_text [of ?qargs sample_driver ?r ?evs bigint_runtime
        "''execute_query''" ?qresp ?qevs] qc qe
    by blast
  show ?thesis
    using g b first qc last by blast
qed


section \<open>Properties of the command line\<close>
























end
